theory Spec2Isabelle
  imports Main
begin

section \<open>Values exchanged with the Twitch API\<close>

text \<open>
  A shallow embedding of \<^verbatim>\<open>twitch/http.py\<close> (classes \<^verbatim>\<open>Route\<close> and \<^verbatim>\<open>HTTPClient\<close>).

  A response body is the value that aiohttp's \<^verbatim>\<open>response.json()\<close> hands to the code. The
  decoding itself belongs to aiohttp and is taken to succeed; JSON numbers are integers
  here (the only number the code computes with is \<^verbatim>\<open>expires_in\<close>). An object is the list
  of its members; the keys of a decoded object are distinct.
\<close>

datatype json =
    JNull
  | JBool bool
  | JNum int
  | JStr string
  | JArr "json list"
  | JObj "(string \<times> json) list"

text \<open>
  Modelled from the spec: \<^verbatim>\<open>twitch/errors.py\<close> is not part of the sources at hand. The
  eight library errors are the taxonomy of section 7 of the specification; they are taken
  to be unrelated classes, so that an \<^verbatim>\<open>except\<close> clause catches exactly the class it names,
  and none of them is an \<^verbatim>\<open>OSError\<close>. \<^verbatim>\<open>Unauthorized\<close> and \<^verbatim>\<open>Forbidden\<close> carry the message
  they are raised with, if any. The last four constructors are Python's built-in
  exceptions that the code can raise.
\<close>

datatype error =
    BadRequest
  | Unauthorized "string option"
  | Forbidden "string option"
  | NotFound
  | TwitchServerError
  | UnknownError
  | HTTPException
  | SubscriptionError string string
  | AttributeError
  | KeyError
  | IndexError
  | TypeError

fun is_Unauthorized :: "error \<Rightarrow> bool" where
  "is_Unauthorized (Unauthorized m) = True"
| "is_Unauthorized e = False"

fun is_Forbidden :: "error \<Rightarrow> bool" where
  "is_Forbidden (Forbidden m) = True"
| "is_Forbidden e = False"

text \<open>The errors of the taxonomy, as opposed to Python's built-in exceptions.\<close>

fun typed_error :: "error \<Rightarrow> bool" where
  "typed_error AttributeError = False"
| "typed_error KeyError = False"
| "typed_error IndexError = False"
| "typed_error TypeError = False"
| "typed_error e = True"

subsection \<open>Python subscripting, length and truth on decoded JSON\<close>

text \<open>\<^verbatim>\<open>v[key]\<close> for a string key.\<close>

fun py_getitem :: "json \<Rightarrow> string \<Rightarrow> error + json" where
  "py_getitem (JObj kvs) k = (case map_of kvs k of None \<Rightarrow> Inl KeyError | Some v \<Rightarrow> Inr v)"
| "py_getitem v k = Inl TypeError"

text \<open>
  \<^verbatim>\<open>v[0]\<close>: the first element of a list, the first character of a string, \<^verbatim>\<open>IndexError\<close>
  when either is empty, \<^verbatim>\<open>KeyError\<close> on a dict (the keys of a decoded object are strings).
\<close>

fun py_first :: "json \<Rightarrow> error + json" where
  "py_first (JArr []) = Inl IndexError"
| "py_first (JArr (x # xs)) = Inr x"
| "py_first (JStr []) = Inl IndexError"
| "py_first (JStr (c # cs)) = Inr (JStr [c])"
| "py_first (JObj kvs) = Inl KeyError"
| "py_first v = Inl TypeError"

text \<open>\<^verbatim>\<open>len(v)\<close>.\<close>

fun py_len :: "json \<Rightarrow> error + nat" where
  "py_len (JArr xs) = Inr (length xs)"
| "py_len (JStr s) = Inr (length s)"
| "py_len (JObj kvs) = Inr (length (remdups (map fst kvs)))"
| "py_len v = Inl TypeError"

text \<open>The value as a Python integer in arithmetic: \<^verbatim>\<open>bool\<close> is a subclass of \<^verbatim>\<open>int\<close>.\<close>

fun py_int :: "json \<Rightarrow> int option" where
  "py_int (JNum i) = Some i"
| "py_int (JBool b) = Some (if b then 1 else 0)"
| "py_int v = None"

text \<open>\<^verbatim>\<open>v == 0\<close>.\<close>

definition py_eq_zero :: "json \<Rightarrow> bool" where
  "py_eq_zero v = (py_int v = Some 0)"

text \<open>The truth value of an \<^verbatim>\<open>Optional[str]\<close>: \<^verbatim>\<open>None\<close> and the empty string are false.\<close>

fun truthy :: "string option \<Rightarrow> bool" where
  "truthy None = False"
| "truthy (Some s) = (s \<noteq> [])"

section \<open>Routes\<close>

record route =
  http_method :: string
  url :: string

definition BASE_ROUTE :: string where
  "BASE_ROUTE = ''https://api.twitch.tv/helix/''"

text \<open>\<^verbatim>\<open>Route(method=m, path=p)\<close> and \<^verbatim>\<open>Route(method=m, url=u)\<close>, the two ways the class is used.\<close>

definition route_path :: "string \<Rightarrow> string \<Rightarrow> route" where
  "route_path m p = \<lparr>http_method = m, url = BASE_ROUTE @ p\<rparr>"

definition route_url :: "string \<Rightarrow> string \<Rightarrow> route" where
  "route_url m u = \<lparr>http_method = m, url = u\<rparr>"

section \<open>The client, its environment and its effects\<close>

text \<open>
  The keyword arguments of a request. A parameter value is either a string as it is, or
  \<^verbatim>\<open>helpers.quote(s)\<close> of aiohttp, kept symbolic.
\<close>

datatype param = Plain string | Quoted string

datatype kwargs =
    NoKwargs
  | Params "(string \<times> param) list"
  | Json json

text \<open>
  What the client does to the outside, in order: a transport attempt (method, url, the
  value \<open>t\<close> of the session's header \<^verbatim>\<open>Authorization: Bearer t\<close>, keyword arguments), a
  sleep in seconds, a \<^verbatim>\<open>print\<close>, a call of the dispatcher, a logged warning. Debug, info
  and error log lines are left out.
\<close>

datatype event =
    Sent string string json kwargs
  | Slept int
  | Printed json
  | Dispatched string "json list"
  | Warned string

text \<open>
  What the network answers to one transport attempt: the attempt fails with an
  \<^verbatim>\<open>OSError\<close>, or a response arrives with a status and a decoded body.
\<close>

datatype outcome = OSErr | Resp int json

text \<open>
  The state of an \<^verbatim>\<open>HTTPClient\<close> together with its environment. \<open>session\<close> is \<open>None\<close> when
  \<^verbatim>\<open>__session\<close> is \<^verbatim>\<open>None\<close>, and otherwise holds the token of the \<^verbatim>\<open>Authorization\<close> header.
  A session closed from outside the class, without being discarded, is left out.
  \<open>locked\<close> is the state of \<^verbatim>\<open>_session_lock\<close>. \<open>net\<close> is the script of the answers the
  network will give, one per transport attempt; \<open>clock\<close> the readings \<^verbatim>\<open>time()\<close> will
  return, in whole seconds; \<open>log\<close> the effects so far. A function that needs an answer or
  a reading when the script is used up has no result (\<open>None\<close>).
\<close>

record world =
  client_id :: string
  client_secret :: "string option"
  refresh_token :: "string option"
  session :: "json option"
  locked :: bool
  net :: "outcome list"
  clock :: "int list"
  log :: "event list"

definition emit :: "event \<Rightarrow> world \<Rightarrow> world" where
  "emit ev w = w\<lparr>log := log w @ [ev]\<rparr>"

type_synonym 'a result = "((error + 'a) \<times> world) option"

section \<open>The request pipeline\<close>

text \<open>
  \<^verbatim>\<open>HTTPClient._request\<close>. The list is the range of \<^verbatim>\<open>retry_count\<close> still to run; the
  empty list is the \<^verbatim>\<open>else\<close> of the \<^verbatim>\<open>for\<close>. Without a session the attribute access
  \<^verbatim>\<open>self.__session.request\<close> fails.
\<close>

fun request_attempts :: "int list \<Rightarrow> route \<Rightarrow> kwargs \<Rightarrow> world \<Rightarrow> json result" where
  "request_attempts [] r kw w = Some (Inl HTTPException, w)"
| "request_attempts (retry_count # rest) r kw w =
     (case session w of
        None \<Rightarrow> Some (Inl AttributeError, w)
      | Some auth \<Rightarrow>
          (case net w of
             [] \<Rightarrow> None
           | OSErr # future \<Rightarrow>
               (let w1 = emit (Sent (http_method r) (url r) auth kw) (w\<lparr>net := future\<rparr>) in
                if 3 \<ge> retry_count
                then request_attempts rest r kw (emit (Slept (5 * retry_count)) w1)
                else request_attempts rest r kw w1)
           | Resp status body # future \<Rightarrow>
               (let w1 = emit (Sent (http_method r) (url r) auth kw) (w\<lparr>net := future\<rparr>) in
                if status = 200 \<or> status = 202 then Some (Inr body, w1)
                else if status = 400 then Some (Inl BadRequest, emit (Printed body) w1)
                else if status = 401 then Some (Inl (Unauthorized None), w1)
                else if status = 403 then Some (Inl (Forbidden None), w1)
                else if status = 404 then Some (Inl NotFound, w1)
                else if 500 \<le> status \<and> status < 600 then Some (Inl TwitchServerError, w1)
                else Some (Inl UnknownError, w1))))"

definition priv_request :: "route \<Rightarrow> kwargs \<Rightarrow> world \<Rightarrow> json result" where
  "priv_request r kw w = request_attempts [1, 2, 3] r kw w"

section \<open>Token validation and refresh, and the outer request wrapper\<close>

definition validate_route :: route where
  "validate_route = route_url ''GET'' ''https://id.twitch.tv/oauth2/validate''"

definition token_route :: route where
  "token_route = route_url ''POST'' ''https://id.twitch.tv/oauth2/token''"

text \<open>The parameters of the refresh-token grant, built in \<^verbatim>\<open>_generate_token\<close>.\<close>

definition refresh_params :: "world \<Rightarrow> (string \<times> param) list" where
  "refresh_params w =
     [(''grant_type'', Plain ''refresh_token''),
      (''refresh_token'', Quoted (the (refresh_token w))),
      (''client_id'', Plain (client_id w)),
      (''client_secret'', Plain (the (client_secret w)))]"

text \<open>
  \<^verbatim>\<open>HTTPClient.request\<close>, \<^verbatim>\<open>HTTPClient._validate_token\<close> and \<^verbatim>\<open>HTTPClient._generate_token\<close>
  call each other, and the first two loop (\<^verbatim>\<open>while True\<close>) for as long as the provider
  keeps answering 401. The first argument bounds the depth of calls and the number of
  rounds; a run that needs more has no result (\<open>None\<close>).

  In \<open>request\<close>, the handler \<^verbatim>\<open>except (Unauthorized, BadRequest): raise\<close> re-raises the
  error of the validation; every other error of the validation leaves the function as
  well. In \<open>priv_generate_token\<close>, \<^verbatim>\<open>async with self._session_lock\<close> takes the lock, which
  was just seen free, and gives it back however the block is left. \<open>refresh_params\<close> is
  only evaluated where both credentials are present.
\<close>

fun request :: "nat \<Rightarrow> route \<Rightarrow> kwargs \<Rightarrow> world \<Rightarrow> json result"
  and priv_validate_token :: "nat \<Rightarrow> bool \<Rightarrow> world \<Rightarrow> json result"
  and priv_generate_token :: "nat \<Rightarrow> world \<Rightarrow> (json option) result"
where
  "request 0 r kw w = None"
| "request (Suc n) r kw w =
     (case priv_request r kw w of
        None \<Rightarrow> None
      | Some (Inr data, w1) \<Rightarrow> Some (Inr data, w1)
      | Some (Inl e, w1) \<Rightarrow>
          if is_Unauthorized e then
            (case priv_validate_token n True w1 of
               None \<Rightarrow> None
             | Some (Inl e', w2) \<Rightarrow>
                 if is_Unauthorized e' \<or> e' = BadRequest then Some (Inl e', w2)
                 else Some (Inl e', w2)
             | Some (Inr validation, w2) \<Rightarrow> request n r kw w2)
          else Some (Inl e, w1))"
| "priv_validate_token 0 generate w = None"
| "priv_validate_token (Suc n) generate w =
     (case priv_request validate_route NoKwargs w of
        None \<Rightarrow> None
      | Some (Inr validation, w1) \<Rightarrow> Some (Inr validation, w1)
      | Some (Inl e, w1) \<Rightarrow>
          if is_Unauthorized e then
            if generate \<and> (truthy (client_secret w1) \<and> truthy (refresh_token w1)) then
              (case priv_generate_token n w1 of
                 None \<Rightarrow> None
               | Some (Inl e', w2) \<Rightarrow>
                   if e' = BadRequest \<or> is_Forbidden e'
                   then Some (Inl (Unauthorized (Some ''Invalid refresh token or client secret.'')), w2)
                   else Some (Inl e', w2)
               | Some (Inr refresh, w2) \<Rightarrow> priv_validate_token n generate w2)
            else Some (Inl e, w1)
          else Some (Inl e, w1))"
| "priv_generate_token n w =
     (if truthy (refresh_token w) \<and> truthy (client_secret w) then
        if \<not> locked w then
          (case request n token_route (Params (refresh_params w)) (w\<lparr>locked := True\<rparr>) of
             None \<Rightarrow> None
           | Some (Inl e, w1) \<Rightarrow> Some (Inl e, w1\<lparr>locked := False\<rparr>)
           | Some (Inr refresh, w1) \<Rightarrow>
               (case py_getitem refresh ''access_token'' of
                  Inl e \<Rightarrow> Some (Inl e, w1\<lparr>locked := False\<rparr>)
                | Inr access_token \<Rightarrow>
                    (case session w1 of
                       None \<Rightarrow> Some (Inl AttributeError, w1\<lparr>locked := False\<rparr>)
                     | Some old \<Rightarrow>
                         Some (Inr (Some refresh),
                               (emit (Dispatched ''refresh_token'' [access_token])
                                  (w1\<lparr>session := Some access_token\<rparr>))\<lparr>locked := False\<rparr>))))
        else Some (Inr None, w)
      else Some (Inr None, w))"

section \<open>Opening the session\<close>

text \<open>
  \<^verbatim>\<open>HTTPClient._open\<close>. A session is created only when none is open. Taking a lock that
  is held would wait for another task to give it back; there is no other task here, and
  the function has no result then.
\<close>

definition priv_open :: "string \<Rightarrow> world \<Rightarrow> world option" where
  "priv_open access_token w =
     (if locked w then None
      else if session w = None then Some (w\<lparr>session := Some (JStr access_token)\<rparr>)
      else Some w)"

definition removed_warning :: string where
  "removed_warning =
     ''The refresh token has been removed due to the access token returning an expire time of 0.''"

text \<open>\<^verbatim>\<open>HTTPClient.open_session\<close>.\<close>

definition open_session :: "nat \<Rightarrow> string \<Rightarrow> string option \<Rightarrow> world \<Rightarrow> json result" where
  "open_session n token rt w =
     (case priv_open token w of
        None \<Rightarrow> None
      | Some w0 \<Rightarrow>
          (case priv_validate_token n True (w0\<lparr>refresh_token := rt\<rparr>) of
             None \<Rightarrow> None
           | Some (Inl e, w1) \<Rightarrow> Some (Inl e, w1)
           | Some (Inr validation, w1) \<Rightarrow>
               (case py_getitem validation ''expires_in'' of
                  Inl e \<Rightarrow> Some (Inl e, w1)
                | Inr expires_in \<Rightarrow>
                    if py_eq_zero expires_in then
                      if refresh_token w1 \<noteq> None
                      then Some (Inr validation, emit (Warned removed_warning) w1)
                      else Some (Inr validation, w1)
                    else Some (Inr validation, w1\<lparr>refresh_token := rt\<rparr>))))"

section \<open>The background refresh loop\<close>

definition disabled_warning :: string where
  "disabled_warning =
     ''Invalid Refresh Token. The automatic generation feature has been disabled.''"

text \<open>
  The \<^verbatim>\<open>try\<close> block of one round of \<^verbatim>\<open>HTTPClient.Refresher\<close>, after the sleep and the
  reading of \<^verbatim>\<open>current_time\<close>. It returns the new \<^verbatim>\<open>start_time\<close> with the new \<^verbatim>\<open>expires_in\<close>,
  or the error that leaves the block with the \<^verbatim>\<open>start_time\<close> at that moment.
\<close>

definition Refresher_try ::
  "nat \<Rightarrow> int \<Rightarrow> int \<Rightarrow> int \<Rightarrow> world \<Rightarrow> ((error + json) \<times> int \<times> world) option" where
  "Refresher_try n start_time current_time expires_in w =
     (let validate = (\<lambda>start w'.
            case priv_validate_token n False w' of
              None \<Rightarrow> None
            | Some (Inl e, w2) \<Rightarrow> Some (Inl e, start, w2)
            | Some (Inr validation, w2) \<Rightarrow>
                (case py_getitem validation ''expires_in'' of
                   Inl e \<Rightarrow> Some (Inl e, start, w2)
                 | Inr new_expires_in \<Rightarrow> Some (Inr new_expires_in, start, w2)))
      in if current_time - start_time \<ge> expires_in - 300 then
           (case clock w of
              [] \<Rightarrow> None
            | t # later \<Rightarrow>
                (case priv_generate_token n (w\<lparr>clock := later\<rparr>) of
                   None \<Rightarrow> None
                 | Some (Inl e, w1) \<Rightarrow> Some (Inl e, t, w1)
                 | Some (Inr refresh, w1) \<Rightarrow> validate t w1))
         else validate start_time w)"

text \<open>
  The loop of \<^verbatim>\<open>HTTPClient.Refresher\<close>, run for at most \<open>rounds\<close> rounds. The result is
  \<open>Some (None, w)\<close> when the loop is still running after that many rounds, and
  \<open>Some (Some e, w)\<close> when the error \<open>e\<close> has ended the task: only \<^verbatim>\<open>BadRequest\<close> is caught.
  \<^verbatim>\<open>expires_in - 300\<close> is a \<^verbatim>\<open>TypeError\<close> when the provider's \<^verbatim>\<open>expires_in\<close> is not a number.
\<close>

fun Refresher_loop ::
  "nat \<Rightarrow> nat \<Rightarrow> int \<Rightarrow> json \<Rightarrow> world \<Rightarrow> (error option \<times> world) option" where
  "Refresher_loop 0 n start_time expires_in w = Some (None, w)"
| "Refresher_loop (Suc rounds) n start_time expires_in w =
     (case py_int expires_in of
        None \<Rightarrow> Some (Some TypeError, w)
      | Some e \<Rightarrow>
          (let w1 = emit (Slept (min (e - 300) 3540)) w in
           case clock w1 of
             [] \<Rightarrow> None
           | current_time # later \<Rightarrow>
               (case Refresher_try n start_time current_time e (w1\<lparr>clock := later\<rparr>) of
                  None \<Rightarrow> None
                | Some (Inr new_expires_in, start, w2) \<Rightarrow>
                    Refresher_loop rounds n start new_expires_in w2
                | Some (Inl err, start, w2) \<Rightarrow>
                    if err = BadRequest
                    then Refresher_loop rounds n start expires_in
                           ((emit (Warned disabled_warning) w2)\<lparr>refresh_token := None\<rparr>)
                    else Some (Some err, w2))))"

text \<open>\<^verbatim>\<open>HTTPClient.Refresher\<close>: the first reading of the clock, the default, then the loop.\<close>

definition Refresher :: "nat \<Rightarrow> nat \<Rightarrow> int \<Rightarrow> world \<Rightarrow> (error option \<times> world) option" where
  "Refresher rounds n expires_in w =
     (case clock w of
        [] \<Rightarrow> None
      | start_time # later \<Rightarrow>
          if truthy (refresh_token w) \<and> truthy (client_secret w)
          then Refresher_loop rounds n start_time (JNum expires_in) (w\<lparr>clock := later\<rparr>)
          else Refresher_loop rounds n start_time (JNum (3540 + 300)) (w\<lparr>clock := later\<rparr>))"

section \<open>Resource endpoints\<close>

text \<open>
  Modelled from the spec: \<^verbatim>\<open>twitch/types/eventsub/subscriptions.py\<close> is not part of the
  sources at hand. A \<^verbatim>\<open>SubscriptionPayload\<close> is a subscription request with its event name
  and version, both read by \<^verbatim>\<open>subscribe\<close>.
\<close>

record subscription =
  name :: string
  version :: string

definition subscription_data :: "string \<Rightarrow> string \<Rightarrow> subscription \<Rightarrow> json" where
  "subscription_data user_id session_id s =
     JObj [(''type'', JStr (name s)),
           (''version'', JStr (version s)),
           (''condition'', JObj [(''user_id'', JStr user_id),
                                   (''broadcaster_user_id'', JStr user_id),
                                   (''moderator_user_id'', JStr user_id),
                                   (''to_broadcaster_user_id'', JStr user_id)]),
           (''transport'', JObj [(''method'', JStr ''websocket''),
                                   (''session_id'', JStr session_id)])]"

definition missing_authorization :: "subscription \<Rightarrow> string" where
  "missing_authorization s = ''Subscription `'' @ name s @ ''` is missing proper authorization''"

text \<open>The \<^verbatim>\<open>for\<close> loop of \<^verbatim>\<open>HTTPClient.subscribe\<close>: a \<^verbatim>\<open>raise\<close> in a handler leaves the loop.\<close>

fun subscribe_loop ::
  "nat \<Rightarrow> string \<Rightarrow> string \<Rightarrow> subscription list \<Rightarrow> world \<Rightarrow> unit result" where
  "subscribe_loop n user_id session_id [] w = Some (Inr (), w)"
| "subscribe_loop n user_id session_id (s # rest) w =
     (case request n (route_path ''POST'' ''eventsub/subscriptions'')
             (Json (subscription_data user_id session_id s)) w of
        None \<Rightarrow> None
      | Some (Inr body, w1) \<Rightarrow> subscribe_loop n user_id session_id rest w1
      | Some (Inl e, w1) \<Rightarrow>
          if is_Forbidden e then Some (Inl (Forbidden (Some (missing_authorization s))), w1)
          else if e = BadRequest then Some (Inl (SubscriptionError (name s) (version s)), w1)
          else Some (Inl e, w1))"

text \<open>\<^verbatim>\<open>HTTPClient.subscribe\<close>: the loop, then the dispatch after it.\<close>

definition subscribe ::
  "nat \<Rightarrow> string \<Rightarrow> string \<Rightarrow> subscription list \<Rightarrow> world \<Rightarrow> unit result" where
  "subscribe n user_id session_id subscriptions w =
     (case subscribe_loop n user_id session_id subscriptions w of
        None \<Rightarrow> None
      | Some (Inl e, w1) \<Rightarrow> Some (Inl e, w1)
      | Some (Inr u, w1) \<Rightarrow> Some (Inr (), emit (Dispatched ''ready'' []) w1))"

text \<open>\<^verbatim>\<open>data['data'][0]\<close>, as \<^verbatim>\<open>get_client\<close> and \<^verbatim>\<open>get_channel\<close> return it.\<close>

definition data_first :: "json \<Rightarrow> error + json" where
  "data_first body =
     (case py_getitem body ''data'' of Inl e \<Rightarrow> Inl e | Inr d \<Rightarrow> py_first d)"

definition get_client :: "nat \<Rightarrow> world \<Rightarrow> json result" where
  "get_client n w =
     (case request n (route_path ''GET'' ''users'') NoKwargs w of
        None \<Rightarrow> None
      | Some (Inl e, w1) \<Rightarrow> Some (Inl e, w1)
      | Some (Inr body, w1) \<Rightarrow> Some (data_first body, w1))"

definition get_channel :: "nat \<Rightarrow> string \<Rightarrow> world \<Rightarrow> json result" where
  "get_channel n broadcaster_id w =
     (case request n (route_path ''GET'' (''channels?broadcaster_id='' @ broadcaster_id))
             NoKwargs w of
        None \<Rightarrow> None
      | Some (Inl e, w1) \<Rightarrow> Some (Inl e, w1)
      | Some (Inr body, w1) \<Rightarrow> Some (data_first body, w1))"

text \<open>\<^verbatim>\<open>HTTPClient.get_stream\<close>: only \<^verbatim>\<open>NotFound\<close> is caught.\<close>

definition get_stream :: "nat \<Rightarrow> string \<Rightarrow> world \<Rightarrow> (json option) result" where
  "get_stream n user_id w =
     (case request n (route_path ''GET'' (''streams?user_id='' @ user_id)) NoKwargs w of
        None \<Rightarrow> None
      | Some (Inl e, w1) \<Rightarrow> if e = NotFound then Some (Inr None, w1) else Some (Inl e, w1)
      | Some (Inr body, w1) \<Rightarrow>
          (case py_getitem body ''data'' of
             Inl e \<Rightarrow> Some (Inl e, w1)
           | Inr d \<Rightarrow>
               (case py_len d of
                  Inl e \<Rightarrow> Some (Inl e, w1)
                | Inr len \<Rightarrow>
                    if len = 1
                    then (case py_first d of
                            Inl e \<Rightarrow> Some (Inl e, w1)
                          | Inr stream \<Rightarrow> Some (Inr (Some stream), w1))
                    else Some (Inr None, w1))))"

section \<open>Notions used in the statements\<close>

text \<open>
  The table of section 4.1 of the specification, in its own words: what a response with
  a given status and body is turned into.
\<close>

definition status_outcome :: "int \<Rightarrow> json \<Rightarrow> error + json" where
  "status_outcome status body =
     (if status \<in> {200, 202} then Inr body
      else if status = 400 then Inl BadRequest
      else if status = 401 then Inl (Unauthorized None)
      else if status = 403 then Inl (Forbidden None)
      else if status = 404 then Inl NotFound
      else if status \<in> {500..599} then Inl TwitchServerError
      else Inl UnknownError)"

text \<open>
  The effects of the transport attempts that failed before attempt \<open>k + 1\<close>: each is sent
  and followed by a sleep of five seconds times its number.
\<close>

fun backoff :: "route \<Rightarrow> kwargs \<Rightarrow> json \<Rightarrow> int list \<Rightarrow> event list" where
  "backoff r kw a [] = []"
| "backoff r kw a (i # is) = Sent (http_method r) (url r) a kw # Slept (5 * i) # backoff r kw a is"

text \<open>A token exchange is a transport attempt at the provider's token endpoint.\<close>

fun is_exchange :: "event \<Rightarrow> bool" where
  "is_exchange (Sent m u a kw) = (u = ''https://id.twitch.tv/oauth2/token'')"
| "is_exchange ev = False"

definition exchanges :: "world \<Rightarrow> event list" where
  "exchanges w = filter is_exchange (log w)"

fun sleeps :: "event list \<Rightarrow> int list" where
  "sleeps [] = []"
| "sleeps (Slept d # evs) = d # sleeps evs"
| "sleeps (ev # evs) = sleeps evs"

text \<open>
  What the calls below leave as it was: the client's identity and credentials, the lock
  (taken and given back), the clock; an open session stays open; the log only grows.
\<close>

definition frame :: "world \<Rightarrow> world \<Rightarrow> bool" where
  "frame w w' \<longleftrightarrow>
     client_id w' = client_id w \<and> client_secret w' = client_secret w \<and>
     refresh_token w' = refresh_token w \<and> locked w' = locked w \<and> clock w' = clock w \<and>
     (session w \<noteq> None \<longrightarrow> session w' \<noteq> None) \<and> (\<exists>ext. log w' = log w @ ext)"

text \<open>A client with an open session and both credentials, before anything has happened.\<close>

definition client0 :: world where
  "client0 = \<lparr>client_id = ''id'', client_secret = Some ''secret'', refresh_token = Some ''rt'',
              session = Some (JStr ''tok''), locked = False, net = [], clock = [], log = []\<rparr>"

text \<open>A transport attempt on a route, as it appears in the log.\<close>

definition sent :: "route \<Rightarrow> kwargs \<Rightarrow> json \<Rightarrow> event" where
  "sent r kw a = Sent (http_method r) (url r) a kw"

text \<open>Routes and errors the statements name.\<close>

definition users_route :: route where
  "users_route = route_path ''GET'' ''users''"

definition invalid_refresh :: error where
  "invalid_refresh = Unauthorized (Some ''Invalid refresh token or client secret.'')"

text \<open>Bodies the provider answers with: a token pair, and a validation.\<close>

definition token_pair :: json where
  "token_pair = JObj [(''access_token'', JStr ''new''), (''refresh_token'', JStr ''rt2'')]"

definition validation :: "int \<Rightarrow> json" where
  "validation e = JObj [(''expires_in'', JNum e)]"

text \<open>The routes of the resource endpoints.\<close>

definition channel_route :: "string \<Rightarrow> route" where
  "channel_route broadcaster_id = route_path ''GET'' (''channels?broadcaster_id='' @ broadcaster_id)"

definition stream_route :: "string \<Rightarrow> route" where
  "stream_route user_id = route_path ''GET'' (''streams?user_id='' @ user_id)"

definition subscriptions_route :: route where
  "subscriptions_route = route_path ''POST'' ''eventsub/subscriptions''"

text \<open>A body in the list envelope of the provider: \<^verbatim>\<open>{"data": [...]}\<close>.\<close>

definition data_of :: "json list \<Rightarrow> json" where
  "data_of xs = JObj [(''data'', JArr xs)]"

text \<open>An answer that the pipeline takes as a success.\<close>

fun accepted :: "outcome \<Rightarrow> bool" where
  "accepted (Resp status body) = (status = 200 \<or> status = 202)"
| "accepted OSErr = False"

text \<open>The transport attempt that submits one subscription.\<close>

definition submitted :: "string \<Rightarrow> string \<Rightarrow> json \<Rightarrow> subscription \<Rightarrow> event" where
  "submitted user_id session_id a s =
     sent subscriptions_route (Json (subscription_data user_id session_id s)) a"

text \<open>Three subscription requests.\<close>

definition follow :: subscription where
  "follow = \<lparr>name = ''channel.follow'', version = ''2''\<rparr>"

definition cheer :: subscription where
  "cheer = \<lparr>name = ''channel.cheer'', version = ''1''\<rparr>"

definition raid :: subscription where
  "raid = \<lparr>name = ''channel.raid'', version = ''1''\<rparr>"

text \<open>Both credentials of the refresh grant are present (Python truth of the two fields).\<close>

definition refreshable :: "world \<Rightarrow> bool" where
  "refreshable w \<longleftrightarrow> truthy (refresh_token w) \<and> truthy (client_secret w)"

text \<open>
  From \<open>w\<close> to \<open>w'\<close> no token exchange was made, the log only grew, and the credentials
  are still not both present.
\<close>

definition quiet :: "world \<Rightarrow> world \<Rightarrow> bool" where
  "quiet w w' \<longleftrightarrow>
     \<not> refreshable w' \<and> exchanges w' = exchanges w \<and> (\<exists>ext. log w' = log w @ ext)"

text \<open>A client with an open session and neither a refresh token nor a client secret.\<close>

definition bare0 :: world where
  "bare0 = client0\<lparr>refresh_token := None, client_secret := None\<rparr>"

text \<open>The dispatches of \<open>ready\<close> in the log.\<close>

fun is_ready :: "event \<Rightarrow> bool" where
  "is_ready (Dispatched nm args) = (nm = ''ready'')"
| "is_ready ev = False"

definition readies :: "world \<Rightarrow> event list" where
  "readies w = filter is_ready (log w)"

text \<open>
  Every submission of the batch succeeded: the requests for the subscriptions, made one
  after the other, all returned a body. The result is the state after the last of them.
\<close>

fun all_accepted ::
  "nat \<Rightarrow> string \<Rightarrow> string \<Rightarrow> subscription list \<Rightarrow> world \<Rightarrow> world option" where
  "all_accepted n user_id session_id [] w = Some w"
| "all_accepted n user_id session_id (s # rest) w =
     (case request n subscriptions_route (Json (subscription_data user_id session_id s)) w of
        None \<Rightarrow> None
      | Some (Inl e, w1) \<Rightarrow> None
      | Some (Inr body, w1) \<Rightarrow> all_accepted n user_id session_id rest w1)"

text \<open>A client whose network accepts a first submission, answers the second with the
  given status and would accept a third.\<close>

definition batch0 :: "int \<Rightarrow> world" where
  "batch0 status = client0\<lparr>net := [Resp 202 JNull, Resp status JNull, Resp 202 JNull]\<rparr>"

text \<open>The network answers the transport attempt: it does not fail in the transport.\<close>

fun answered :: "outcome \<Rightarrow> bool" where
  "answered (Resp status body) = True"
| "answered OSErr = False"

text \<open>
  The sleeps of the refresh loop without credentials, in the words of the amended claim:
  a round entered with \<open>expires_in = e\<close> sleeps \<open>min (e - 300) 3540\<close>; a validation
  answered 200 or 202 with a numeric \<open>expires_in\<close> gives the next round that value; one
  answered 400 leaves the value as it was; any other answer, a body without
  \<open>expires_in\<close> or a value that is not a number ends the sleeping. The arguments are the
  current value, the answers to come and the number of rounds.
\<close>

fun loop_sleeps :: "int \<Rightarrow> outcome list \<Rightarrow> nat \<Rightarrow> int list" where
  "loop_sleeps e rs 0 = []"
| "loop_sleeps e [] (Suc k) = [min (e - 300) 3540]"
| "loop_sleeps e (OSErr # rs) (Suc k) = [min (e - 300) 3540]"
| "loop_sleeps e (Resp status body # rs) (Suc k) =
     min (e - 300) 3540 #
     (if status = 200 \<or> status = 202 then
        (case py_getitem body ''expires_in'' of
           Inl err \<Rightarrow> []
         | Inr v \<Rightarrow> (case py_int v of None \<Rightarrow> [] | Some e' \<Rightarrow> loop_sleeps e' rs k))
      else if status = 400 then loop_sleeps e rs k
      else [])"

section \<open>The request pipeline: classification and retries\<close>

declare priv_generate_token.simps [simp del]

lemmas concrete_defs =
  client0_def priv_request_def emit_def sent_def Let_def priv_generate_token.simps
  refresh_params_def token_pair_def validation_def validate_route_def token_route_def
  route_url_def route_path_def invalid_refresh_def BASE_ROUTE_def

lemma priv_request_response:
  assumes s: "session w = Some a"
      and n: "net w = replicate k OSErr @ Resp status body # future"
      and k: "k < 3"
  shows "priv_request r kw w =
           Some (status_outcome status body,
                 w\<lparr>net := future,
                   log := log w @ backoff r kw a (map int [1..<Suc k])
                     @ Sent (http_method r) (url r) a kw # (if status = 400 then [Printed body] else [])\<rparr>)"
proof -
  from k consider "k = 0" | "k = 1" | "k = 2" by linarith
  then show ?thesis
  proof cases
    case 1
    with s n show ?thesis
      by (simp add: priv_request_def emit_def status_outcome_def Let_def)
  next
    case 2
    with s n show ?thesis
      by (simp add: priv_request_def emit_def status_outcome_def Let_def)
  next
    case 3
    with s n show ?thesis
      by (simp add: priv_request_def emit_def status_outcome_def Let_def numeral_2_eq_2)
  qed
qed

text \<open>
  Claim C3, as amended. Whenever a response arrives at a pipeline request (at the first
  attempt, or after one or two attempts that failed in the transport), \<open>_request\<close> ends
  with exactly the outcome of the table: the decoded body for 200 and 202, and only for
  them; \<open>BadRequest\<close> for 400; \<open>Unauthorized\<close> for 401, \<open>Forbidden\<close> for 403, \<open>NotFound\<close>
  for 404, \<open>TwitchServerError\<close> for 500 to 599 and \<open>UnknownError\<close> for every other status.
  For 400 the caller gets the bare \<open>BadRequest\<close>, the same for every body: the body is
  only printed on standard output, as the last effect. Nothing but the script of the
  network and the log changes.
\<close>

theorem priv_request_classifies_status:
  assumes "session w = Some a"
      and "net w = replicate k OSErr @ Resp status body # future"
      and "k < 3"
  shows "priv_request r kw w =
           Some (status_outcome status body,
                 w\<lparr>net := future,
                   log := log w @ backoff r kw a (map int [1..<Suc k])
                     @ Sent (http_method r) (url r) a kw # (if status = 400 then [Printed body] else [])\<rparr>)
         \<and> ((\<exists>d. status_outcome status body = Inr d) \<longleftrightarrow> status = 200 \<or> status = 202)
         \<and> (status = 400 \<longrightarrow> status_outcome status body = Inl BadRequest)"
  using priv_request_response[OF assms] by (auto simp: status_outcome_def)

theorem priv_request_classifies_status_witness:
  "session (client0\<lparr>net := [OSErr, Resp 400 (JStr ''no'')]\<rparr>) = Some (JStr ''tok'')
   \<and> net (client0\<lparr>net := [OSErr, Resp 400 (JStr ''no'')]\<rparr>)
       = replicate 1 OSErr @ Resp 400 (JStr ''no'') # []
   \<and> (1::nat) < 3
   \<and> priv_request validate_route NoKwargs (client0\<lparr>net := [OSErr, Resp 400 (JStr ''no'')]\<rparr>)
       = Some (Inl BadRequest,
               client0\<lparr>net := [],
                 log := [Sent ''GET'' ''https://id.twitch.tv/oauth2/validate'' (JStr ''tok'') NoKwargs,
                         Slept 5,
                         Sent ''GET'' ''https://id.twitch.tv/oauth2/validate'' (JStr ''tok'') NoKwargs,
                         Printed (JStr ''no'')]\<rparr>)"
  using priv_request_classifies_status
    [of "client0\<lparr>net := [OSErr, Resp 400 (JStr ''no'')]\<rparr>" "JStr ''tok''" 1 400 "JStr ''no''" "[]"
        validate_route NoKwargs]
  by (simp add: client0_def status_outcome_def validate_route_def route_url_def)

text \<open>
  Two responses with status 400 and different bodies: the caller gets the same bare
  \<open>BadRequest\<close> from both, and the bodies only differ in what is printed.
\<close>

theorem priv_request_body_counterexample:
  "priv_request users_route NoKwargs (client0\<lparr>net := [Resp 400 (JStr ''first'')]\<rparr>)
     = Some (Inl BadRequest,
             client0\<lparr>net := [],
                     log := [Sent ''GET'' ''https://api.twitch.tv/helix/users'' (JStr ''tok'') NoKwargs,
                             Printed (JStr ''first'')]\<rparr>)
   \<and> priv_request users_route NoKwargs (client0\<lparr>net := [Resp 400 (JStr ''second'')]\<rparr>)
     = Some (Inl BadRequest,
             client0\<lparr>net := [],
                     log := [Sent ''GET'' ''https://api.twitch.tv/helix/users'' (JStr ''tok'') NoKwargs,
                             Printed (JStr ''second'')]\<rparr>)
   \<and> JStr ''first'' \<noteq> JStr ''second''"
  by (simp add: concrete_defs users_route_def)

text \<open>
  Claim C5. When the three transport attempts of a pipeline request all fail, the
  request is sent three times (two retries, within the bound of three), sleeping 5
  seconds after the first attempt, 10 after the second and 15 after the third, and only
  then fails with \<open>HTTPException\<close>. When a response with a status other than 200 and 202
  arrives at attempt \<open>k + 1\<close>, the request fails with the error of that status and no
  further attempt is made: the rest of the network's script is untouched and the last
  transport attempt in the log is the one that was answered.
\<close>

theorem priv_request_retries:
  "(session w = Some a \<and> net w = OSErr # OSErr # OSErr # future \<longrightarrow>
      priv_request r kw w =
        Some (Inl HTTPException,
              w\<lparr>net := future,
                log := log w @ [Sent (http_method r) (url r) a kw, Slept 5,
                                Sent (http_method r) (url r) a kw, Slept 10,
                                Sent (http_method r) (url r) a kw, Slept 15]\<rparr>))
   \<and> (session w = Some a \<and> net w = replicate k OSErr @ Resp status body # future \<and> k < 3
        \<and> status \<noteq> 200 \<and> status \<noteq> 202 \<longrightarrow>
      (\<exists>e. priv_request r kw w =
        Some (Inl e,
              w\<lparr>net := future,
                log := log w @ backoff r kw a (map int [1..<Suc k])
                  @ Sent (http_method r) (url r) a kw
                  # (if status = 400 then [Printed body] else [])\<rparr>)))"
proof (intro conjI impI)
  assume "session w = Some a \<and> net w = OSErr # OSErr # OSErr # future"
  then show "priv_request r kw w =
        Some (Inl HTTPException,
              w\<lparr>net := future,
                log := log w @ [Sent (http_method r) (url r) a kw, Slept 5,
                                Sent (http_method r) (url r) a kw, Slept 10,
                                Sent (http_method r) (url r) a kw, Slept 15]\<rparr>)"
    by (simp add: priv_request_def emit_def Let_def)
next
  assume h: "session w = Some a \<and> net w = replicate k OSErr @ Resp status body # future \<and> k < 3
        \<and> status \<noteq> 200 \<and> status \<noteq> 202"
  then have "\<exists>e. status_outcome status body = Inl e"
    by (simp add: status_outcome_def)
  with h priv_request_response[of w a k status body future r kw]
  show "\<exists>e. priv_request r kw w =
        Some (Inl e,
              w\<lparr>net := future,
                log := log w @ backoff r kw a (map int [1..<Suc k])
                  @ Sent (http_method r) (url r) a kw
                  # (if status = 400 then [Printed body] else [])\<rparr>)"
    by auto
qed

theorem priv_request_retries_witness:
  "session (client0\<lparr>net := [OSErr, OSErr, OSErr, Resp 200 JNull]\<rparr>) = Some (JStr ''tok'')
   \<and> priv_request validate_route NoKwargs (client0\<lparr>net := [OSErr, OSErr, OSErr, Resp 200 JNull]\<rparr>)
       = Some (Inl HTTPException,
               client0\<lparr>net := [Resp 200 JNull],
                 log := [Sent ''GET'' ''https://id.twitch.tv/oauth2/validate'' (JStr ''tok'') NoKwargs,
                         Slept 5,
                         Sent ''GET'' ''https://id.twitch.tv/oauth2/validate'' (JStr ''tok'') NoKwargs,
                         Slept 10,
                         Sent ''GET'' ''https://id.twitch.tv/oauth2/validate'' (JStr ''tok'') NoKwargs,
                         Slept 15]\<rparr>)
   \<and> net (client0\<lparr>net := [Resp 503 JNull, Resp 200 JNull]\<rparr>)
       = replicate 0 OSErr @ Resp 503 JNull # [Resp 200 JNull]
   \<and> (\<exists>e. priv_request validate_route NoKwargs (client0\<lparr>net := [Resp 503 JNull, Resp 200 JNull]\<rparr>)
       = Some (Inl e,
               client0\<lparr>net := [Resp 200 JNull],
                 log := [Sent ''GET'' ''https://id.twitch.tv/oauth2/validate'' (JStr ''tok'') NoKwargs]\<rparr>))"
  using priv_request_retries
    [of "client0\<lparr>net := [OSErr, OSErr, OSErr, Resp 200 JNull]\<rparr>" "JStr ''tok''" "[Resp 200 JNull]"
        validate_route NoKwargs 0 503 JNull]
    priv_request_retries
    [of "client0\<lparr>net := [Resp 503 JNull, Resp 200 JNull]\<rparr>" "JStr ''tok''" "[Resp 200 JNull]"
        validate_route NoKwargs 0 503 JNull]
  by (simp add: client0_def validate_route_def route_url_def)

section \<open>What the calls leave unchanged\<close>

lemma frame_refl: "frame w w"
  by (simp add: frame_def)

lemma frame_trans: "frame w w1 \<Longrightarrow> frame w1 w2 \<Longrightarrow> frame w w2"
  by (auto simp: frame_def)

lemma request_attempts_frame:
  "request_attempts is r kw w = Some (res, w') \<Longrightarrow> frame w w'"
proof (induction "is" arbitrary: w)
  case Nil
  then show ?case by (simp add: frame_refl)
next
  case (Cons i "is")
  show ?case
  proof (cases "session w")
    case None
    with Cons.prems show ?thesis by (simp add: frame_refl)
  next
    case (Some a)
    show ?thesis
    proof (cases "net w")
      case Nil
      with Some Cons.prems show ?thesis by simp
    next
      case (Cons o' future)
      show ?thesis
      proof (cases o')
        case OSErr
        let ?w1 = "emit (Sent (http_method r) (url r) a kw) (w\<lparr>net := future\<rparr>)"
        let ?w2 = "if 3 \<ge> i then emit (Slept (5 * i)) ?w1 else ?w1"
        from Cons.prems Some Cons OSErr
        have "request_attempts is r kw ?w2 = Some (res, w')"
          by (simp add: Let_def split: if_splits)
        then have "frame ?w2 w'" by (rule Cons.IH)
        moreover have "frame w ?w2" using Some by (simp add: frame_def emit_def)
        ultimately show ?thesis by (rule frame_trans[rotated])
      next
        case (Resp status body)
        with Cons.prems Some Cons show ?thesis
          by (auto simp: Let_def frame_def emit_def split: if_splits)
      qed
    qed
  qed
qed

lemma priv_request_frame: "priv_request r kw w = Some (res, w') \<Longrightarrow> frame w w'"
  unfolding priv_request_def by (rule request_attempts_frame)

lemma request_attempts_session:
  "request_attempts is r kw w = Some (Inr d, w') \<Longrightarrow> session w \<noteq> None"
  by (cases "is") (auto split: option.splits)

lemma token_calls_frame:
  "(\<forall>r kw w res w'. request n r kw w = Some (res, w') \<longrightarrow> frame w w') \<and>
   (\<forall>g w res w'. priv_validate_token n g w = Some (res, w') \<longrightarrow> frame w w') \<and>
   (\<forall>w res w'. priv_generate_token n w = Some (res, w') \<longrightarrow> frame w w')"
proof (induction n)
  case 0
  have gen: "\<forall>w res w'. priv_generate_token 0 w = Some (res, w') \<longrightarrow> frame w w'"
    by (auto simp: frame_refl priv_generate_token.simps split: if_splits)
  then show ?case by simp
next
  case (Suc n)
  then have IHr: "\<And>r kw w res w'. request n r kw w = Some (res, w') \<Longrightarrow> frame w w'"
    and IHv: "\<And>g w res w'. priv_validate_token n g w = Some (res, w') \<Longrightarrow> frame w w'"
    and IHg: "\<And>w res w'. priv_generate_token n w = Some (res, w') \<Longrightarrow> frame w w'"
    by blast+
  have req: "frame w w'" if "request (Suc n) r kw w = Some (res, w')" for r kw w res w'
    using that
    by (auto split: option.splits sum.splits if_splits
        dest!: priv_request_frame IHv IHr) (blast intro: frame_trans)+
  have val: "frame w w'" if "priv_validate_token (Suc n) g w = Some (res, w')" for g w res w'
    using that
    by (auto split: option.splits sum.splits if_splits
        dest!: priv_request_frame IHv IHg) (blast intro: frame_trans)+
  have gen: "frame w w'" if "priv_generate_token (Suc n) w = Some (res, w')" for w res w'
  proof (cases "truthy (refresh_token w) \<and> truthy (client_secret w) \<and> \<not> locked w")
    case False
    with that show ?thesis by (auto simp: frame_refl priv_generate_token.simps split: if_splits)
  next
    case True
    with that obtain res1 w1 where
      r: "request (Suc n) token_route (Params (refresh_params w)) (w\<lparr>locked := True\<rparr>) = Some (res1, w1)"
      by (simp add: priv_generate_token.simps split: option.splits prod.splits del: request.simps)
    from req[OF r] have f: "frame (w\<lparr>locked := True\<rparr>) w1" .
    from that True r show ?thesis using f
      by (auto simp: priv_generate_token.simps frame_def emit_def
          split: sum.splits option.splits simp del: request.simps)
  qed
  from req val gen show ?case by blast
qed


lemmas request_frame = token_calls_frame[THEN conjunct1, rule_format]
lemmas priv_validate_token_frame = token_calls_frame[THEN conjunct2, THEN conjunct1, rule_format]
lemmas priv_generate_token_frame = token_calls_frame[THEN conjunct2, THEN conjunct2, rule_format]

lemma request_Inr_session:
  "request n r kw w = Some (Inr d, w') \<Longrightarrow> session w' \<noteq> None"
proof (induction n arbitrary: w)
  case 0
  then show ?case by simp
next
  case (Suc n)
  show ?case
  proof (cases "priv_request r kw w")
    case None
    with Suc.prems show ?thesis by simp
  next
    case (Some p)
    obtain res w1 where p: "p = (res, w1)" by (cases p)
    show ?thesis
    proof (cases res)
      case (Inr d')
      with Some p Suc.prems have "w' = w1" by simp
      moreover have "session w \<noteq> None"
        using Some p Inr request_attempts_session[of "[1, 2, 3]" r kw w d' w1]
        unfolding priv_request_def by blast
      moreover from Some p have "frame w w1" by (auto dest: priv_request_frame)
      ultimately show ?thesis by (simp add: frame_def)
    next
      case (Inl e)
      with Some p Suc.prems show ?thesis
        by (auto split: if_splits option.splits sum.splits dest: Suc.IH)
    qed
  qed
qed

section \<open>The outer request wrapper\<close>

text \<open>
  Claim C4, as amended. When the pipeline request fails with \<open>Unauthorized\<close>, \<open>request\<close>
  makes one validation with generation, on the state the failed request left. If the
  validation succeeds, the original request is made again on the state the validation
  left, and a success of that request is what the caller gets. If the validation fails,
  with \<open>Unauthorized\<close>, \<open>BadRequest\<close> or any other error, the caller gets the error of the
  validation, not the \<open>Unauthorized\<close> of the request.
\<close>

theorem request_unauthorized_recovery:
  assumes "priv_request r kw w = Some (Inl (Unauthorized m), w1)"
  shows "(priv_validate_token n True w1 = Some (Inr v, w2) \<longrightarrow>
            request (Suc n) r kw w = request n r kw w2)
       \<and> (priv_validate_token (Suc n) True w1 = Some (Inr v, w2)
            \<and> priv_request r kw w2 = Some (Inr d, w3) \<longrightarrow>
            request (Suc (Suc n)) r kw w = Some (Inr d, w3))
       \<and> (priv_validate_token n True w1 = Some (Inl e, w2) \<longrightarrow>
            request (Suc n) r kw w = Some (Inl e, w2))"
  using assms by simp

theorem request_unauthorized_recovery_witness:
  "priv_request users_route NoKwargs
     (client0\<lparr>net := [Resp 401 JNull, Resp 200 (JStr ''valid''), Resp 200 (JStr ''user'')]\<rparr>)
     = Some (Inl (Unauthorized None),
             client0\<lparr>net := [Resp 200 (JStr ''valid''), Resp 200 (JStr ''user'')],
                     log := [sent users_route NoKwargs (JStr ''tok'')]\<rparr>)
   \<and> priv_validate_token (Suc 0) True
       (client0\<lparr>net := [Resp 200 (JStr ''valid''), Resp 200 (JStr ''user'')],
               log := [sent users_route NoKwargs (JStr ''tok'')]\<rparr>)
     = Some (Inr (JStr ''valid''),
             client0\<lparr>net := [Resp 200 (JStr ''user'')],
                     log := [sent users_route NoKwargs (JStr ''tok''),
                             sent validate_route NoKwargs (JStr ''tok'')]\<rparr>)
   \<and> priv_request users_route NoKwargs
       (client0\<lparr>net := [Resp 200 (JStr ''user'')],
               log := [sent users_route NoKwargs (JStr ''tok''),
                       sent validate_route NoKwargs (JStr ''tok'')]\<rparr>)
     = Some (Inr (JStr ''user''),
             client0\<lparr>net := [],
                     log := [sent users_route NoKwargs (JStr ''tok''),
                             sent validate_route NoKwargs (JStr ''tok''),
                             sent users_route NoKwargs (JStr ''tok'')]\<rparr>)
   \<and> request (Suc (Suc 0)) users_route NoKwargs
       (client0\<lparr>net := [Resp 401 JNull, Resp 200 (JStr ''valid''), Resp 200 (JStr ''user'')]\<rparr>)
     = Some (Inr (JStr ''user''),
             client0\<lparr>net := [],
                     log := [sent users_route NoKwargs (JStr ''tok''),
                             sent validate_route NoKwargs (JStr ''tok''),
                             sent users_route NoKwargs (JStr ''tok'')]\<rparr>)"
  using request_unauthorized_recovery
    [of users_route NoKwargs
        "client0\<lparr>net := [Resp 401 JNull, Resp 200 (JStr ''valid''), Resp 200 (JStr ''user'')]\<rparr>"
        None
        "client0\<lparr>net := [Resp 200 (JStr ''valid''), Resp 200 (JStr ''user'')],
                 log := [sent users_route NoKwargs (JStr ''tok'')]\<rparr>"
        0 "JStr ''valid''"
        "client0\<lparr>net := [Resp 200 (JStr ''user'')],
                 log := [sent users_route NoKwargs (JStr ''tok''),
                         sent validate_route NoKwargs (JStr ''tok'')]\<rparr>"
        "JStr ''user''"
        "client0\<lparr>net := [],
                 log := [sent users_route NoKwargs (JStr ''tok''),
                         sent validate_route NoKwargs (JStr ''tok''),
                         sent users_route NoKwargs (JStr ''tok'')]\<rparr>"]
  by (simp add: client0_def priv_request_def emit_def sent_def Let_def)

text \<open>
  The request is answered 401 and the validation 400: the caller gets \<open>BadRequest\<close>, not
  the \<open>Unauthorized\<close> of the request.
\<close>

theorem request_unauthorized_counterexample:
  "priv_request users_route NoKwargs (client0\<lparr>net := [Resp 401 JNull, Resp 400 JNull]\<rparr>)
     = Some (Inl (Unauthorized None),
             client0\<lparr>net := [Resp 400 JNull], log := [sent users_route NoKwargs (JStr ''tok'')]\<rparr>)
   \<and> priv_validate_token (Suc 0) True
       (client0\<lparr>net := [Resp 400 JNull], log := [sent users_route NoKwargs (JStr ''tok'')]\<rparr>)
     = Some (Inl BadRequest,
             client0\<lparr>net := [],
                     log := [sent users_route NoKwargs (JStr ''tok''),
                             sent validate_route NoKwargs (JStr ''tok''),
                             Printed JNull]\<rparr>)
   \<and> request (Suc (Suc 0)) users_route NoKwargs (client0\<lparr>net := [Resp 401 JNull, Resp 400 JNull]\<rparr>)
     = Some (Inl BadRequest,
             client0\<lparr>net := [],
                     log := [sent users_route NoKwargs (JStr ''tok''),
                             sent validate_route NoKwargs (JStr ''tok''),
                             Printed JNull]\<rparr>)
   \<and> \<not> is_Unauthorized BadRequest"
  by (simp add: client0_def priv_request_def emit_def sent_def Let_def)

section \<open>Validation and refresh\<close>

text \<open>
  Claim C6. When the validation endpoint answers \<open>Unauthorized\<close>: with \<open>generate\<close> set and
  both the refresh token and the client secret present, \<open>_validate_token\<close> makes one call
  of \<open>_generate_token\<close> and, when that returns, validates again on the state it left;
  when that call fails with \<open>BadRequest\<close> or \<open>Forbidden\<close>, the validation fails with the
  \<open>Unauthorized\<close> that carries the message about an invalid refresh token or client
  secret; without \<open>generate\<close>, or with a credential missing, the \<open>Unauthorized\<close> of the
  endpoint is what the validation fails with, and nothing else is done.
\<close>

theorem priv_validate_token_unauthorized:
  assumes "priv_request validate_route NoKwargs w = Some (Inl (Unauthorized m), w1)"
  shows "(generate \<and> truthy (refresh_token w) \<and> truthy (client_secret w)
            \<and> priv_generate_token n w1 = Some (Inr g, w2) \<longrightarrow>
            priv_validate_token (Suc n) generate w = priv_validate_token n generate w2)
       \<and> (generate \<and> truthy (refresh_token w) \<and> truthy (client_secret w)
            \<and> priv_generate_token n w1 = Some (Inl e, w2) \<and> (e = BadRequest \<or> is_Forbidden e) \<longrightarrow>
            priv_validate_token (Suc n) generate w = Some (Inl invalid_refresh, w2))
       \<and> (\<not> generate \<or> \<not> truthy (refresh_token w) \<or> \<not> truthy (client_secret w) \<longrightarrow>
            priv_validate_token (Suc n) generate w = Some (Inl (Unauthorized m), w1))"
proof -
  from priv_request_frame[OF assms]
  have "refresh_token w1 = refresh_token w" "client_secret w1 = client_secret w"
    by (simp_all add: frame_def)
  with assms show ?thesis by (auto simp: invalid_refresh_def)
qed

theorem priv_validate_token_unauthorized_witness:
  "priv_request validate_route NoKwargs
     (client0\<lparr>net := [Resp 401 JNull, Resp 200 token_pair, Resp 200 (validation 1000)]\<rparr>)
     = Some (Inl (Unauthorized None),
             client0\<lparr>net := [Resp 200 token_pair, Resp 200 (validation 1000)],
                     log := [sent validate_route NoKwargs (JStr ''tok'')]\<rparr>)
   \<and> truthy (refresh_token client0) \<and> truthy (client_secret client0)
   \<and> priv_generate_token (Suc 0)
       (client0\<lparr>net := [Resp 200 token_pair, Resp 200 (validation 1000)],
               log := [sent validate_route NoKwargs (JStr ''tok'')]\<rparr>)
     = Some (Inr (Some token_pair),
             client0\<lparr>session := Some (JStr ''new''), net := [Resp 200 (validation 1000)],
                     log := [sent validate_route NoKwargs (JStr ''tok''),
                             sent token_route (Params (refresh_params client0)) (JStr ''tok''),
                             Dispatched ''refresh_token'' [JStr ''new'']]\<rparr>)
   \<and> priv_validate_token (Suc (Suc 0)) True
       (client0\<lparr>net := [Resp 401 JNull, Resp 200 token_pair, Resp 200 (validation 1000)]\<rparr>)
     = Some (Inr (validation 1000),
             client0\<lparr>session := Some (JStr ''new''), net := [],
                     log := [sent validate_route NoKwargs (JStr ''tok''),
                             sent token_route (Params (refresh_params client0)) (JStr ''tok''),
                             Dispatched ''refresh_token'' [JStr ''new''],
                             sent validate_route NoKwargs (JStr ''new'')]\<rparr>)
   \<and> priv_generate_token (Suc 0)
       (client0\<lparr>net := [Resp 403 JNull], log := [sent validate_route NoKwargs (JStr ''tok'')]\<rparr>)
     = Some (Inl (Forbidden None),
             client0\<lparr>net := [],
                     log := [sent validate_route NoKwargs (JStr ''tok''),
                             sent token_route (Params (refresh_params client0)) (JStr ''tok'')]\<rparr>)
   \<and> priv_validate_token (Suc (Suc 0)) True (client0\<lparr>net := [Resp 401 JNull, Resp 403 JNull]\<rparr>)
     = Some (Inl invalid_refresh,
             client0\<lparr>net := [],
                     log := [sent validate_route NoKwargs (JStr ''tok''),
                             sent token_route (Params (refresh_params client0)) (JStr ''tok'')]\<rparr>)
   \<and> priv_validate_token (Suc (Suc 0)) False (client0\<lparr>net := [Resp 401 JNull, Resp 403 JNull]\<rparr>)
     = Some (Inl (Unauthorized None),
             client0\<lparr>net := [Resp 403 JNull],
                     log := [sent validate_route NoKwargs (JStr ''tok'')]\<rparr>)"
  using priv_validate_token_unauthorized
    [of "client0\<lparr>net := [Resp 401 JNull, Resp 200 token_pair, Resp 200 (validation 1000)]\<rparr>"
        None
        "client0\<lparr>net := [Resp 200 token_pair, Resp 200 (validation 1000)],
                 log := [sent validate_route NoKwargs (JStr ''tok'')]\<rparr>"
        True "Suc 0" "Some token_pair"
        "client0\<lparr>session := Some (JStr ''new''), net := [Resp 200 (validation 1000)],
                 log := [sent validate_route NoKwargs (JStr ''tok''),
                         sent token_route (Params (refresh_params client0)) (JStr ''tok''),
                         Dispatched ''refresh_token'' [JStr ''new'']]\<rparr>"
        BadRequest]
    priv_validate_token_unauthorized
    [of "client0\<lparr>net := [Resp 401 JNull, Resp 403 JNull]\<rparr>"
        None
        "client0\<lparr>net := [Resp 403 JNull], log := [sent validate_route NoKwargs (JStr ''tok'')]\<rparr>"
        True "Suc 0" None
        "client0\<lparr>net := [],
                 log := [sent validate_route NoKwargs (JStr ''tok''),
                         sent token_route (Params (refresh_params client0)) (JStr ''tok'')]\<rparr>"
        "Forbidden None"]
    priv_validate_token_unauthorized
    [of "client0\<lparr>net := [Resp 401 JNull, Resp 403 JNull]\<rparr>"
        None
        "client0\<lparr>net := [Resp 403 JNull], log := [sent validate_route NoKwargs (JStr ''tok'')]\<rparr>"
        False "Suc 0" None
        "client0\<lparr>net := [],
                 log := [sent validate_route NoKwargs (JStr ''tok''),
                         sent token_route (Params (refresh_params client0)) (JStr ''tok'')]\<rparr>"
        "Forbidden None"]
  by (simp add: concrete_defs)

lemma priv_request_first_sent:
  assumes "priv_request r kw w = Some (res, w')" and "session w = Some a"
  shows "\<exists>rest. log w' = log w @ Sent (http_method r) (url r) a kw # rest"
proof (cases "net w")
  case Nil
  with assms show ?thesis by (simp add: priv_request_def)
next
  case (Cons rsp future)
  let ?w1 = "emit (Sent (http_method r) (url r) a kw) (w\<lparr>net := future\<rparr>)"
  show ?thesis
  proof (cases rsp)
    case (Resp status body)
    with assms Cons show ?thesis
      by (auto simp: priv_request_def emit_def Let_def split: if_splits)
  next
    case OSErr
    with assms Cons
    have "request_attempts [2, 3] r kw (emit (Slept (5 * 1)) ?w1) = Some (res, w')"
      by (simp add: priv_request_def Let_def)
    from request_attempts_frame[OF this] show ?thesis
      by (auto simp: frame_def emit_def)
  qed
qed

lemma request_first_sent:
  assumes "request n r kw w = Some (res, w')" and "session w = Some a"
  shows "\<exists>rest. log w' = log w @ Sent (http_method r) (url r) a kw # rest"
proof (cases n)
  case 0
  with assms show ?thesis by simp
next
  case (Suc m)
  with assms obtain res1 w1 where p: "priv_request r kw w = Some (res1, w1)"
    by (auto split: option.splits)
  from priv_request_first_sent[OF p assms(2)] obtain rest where
    l1: "log w1 = log w @ Sent (http_method r) (url r) a kw # rest" by blast
  have "\<exists>ext. log w' = log w1 @ ext"
  proof (cases "w' = w1")
    case True
    then show ?thesis by simp
  next
    case False
    with assms(1) Suc p obtain v w2 where
      "priv_validate_token m True w1 = Some (v, w2)"
      and c: "w' = w2 \<or> (\<exists>res2. request m r kw w2 = Some (res2, w'))"
      by (auto split: sum.splits if_splits option.splits)
    then have "frame w1 w2" by (auto dest: priv_validate_token_frame)
    moreover from c have "frame w2 w'" by (auto simp: frame_refl dest: request_frame)
    ultimately have "frame w1 w'" by (rule frame_trans)
    then show ?thesis by (simp add: frame_def)
  qed
  with l1 show ?thesis by auto
qed

text \<open>
  Claim C7. \<open>_generate_token\<close> returns \<open>None\<close> and changes nothing, so that no exchange is
  made, when the refresh token or the client secret is missing or the lock is held.
  Otherwise it makes the exchange with the identity provider, under the lock: a \<open>POST\<close>
  to \<open>https://id.twitch.tv/oauth2/token\<close> with the grant type \<open>refresh_token\<close>, the quoted
  refresh token, the client id and the client secret. When that request returns a body
  with an \<open>access_token\<close>, the session's \<open>Authorization\<close> header becomes that token, the
  dispatcher is called with \<open>refresh_token\<close> and the token, the lock is free again and
  the body is returned. The third part states the same for an exchange that the provider
  answers with 200 or 202 at once, or after one or two failed transport attempts. The
  last part: whenever the call is not skipped and returns, with a result or an error,
  the first thing it did was to send that exchange.
\<close>

theorem priv_generate_token_behaviour:
  "(\<not> truthy (refresh_token w) \<or> \<not> truthy (client_secret w) \<or> locked w \<longrightarrow>
      priv_generate_token n w = Some (Inr None, w))
   \<and> (refresh_token w = Some rt \<and> rt \<noteq> [] \<and> client_secret w = Some cs \<and> cs \<noteq> []
       \<and> \<not> locked w
       \<and> request n \<lparr>http_method = ''POST'', url = ''https://id.twitch.tv/oauth2/token''\<rparr>
            (Params [(''grant_type'', Plain ''refresh_token''),
                     (''refresh_token'', Quoted rt),
                     (''client_id'', Plain (client_id w)),
                     (''client_secret'', Plain cs)])
            (w\<lparr>locked := True\<rparr>)
           = Some (Inr refresh, w1)
       \<and> py_getitem refresh ''access_token'' = Inr access_token \<longrightarrow>
      priv_generate_token n w =
        Some (Inr (Some refresh),
              w1\<lparr>session := Some access_token,
                 log := log w1 @ [Dispatched ''refresh_token'' [access_token]],
                 locked := False\<rparr>))
   \<and> (refresh_token w = Some rt \<and> rt \<noteq> [] \<and> client_secret w = Some cs \<and> cs \<noteq> []
       \<and> \<not> locked w
       \<and> session w = Some a \<and> net w = replicate k OSErr @ Resp status refresh # future \<and> k < 3
       \<and> (status = 200 \<or> status = 202)
       \<and> py_getitem refresh ''access_token'' = Inr access_token \<longrightarrow>
      priv_generate_token (Suc n) w =
        Some (Inr (Some refresh),
              w\<lparr>session := Some access_token, net := future,
                log := log w
                  @ backoff \<lparr>http_method = ''POST'', url = ''https://id.twitch.tv/oauth2/token''\<rparr>
                      (Params [(''grant_type'', Plain ''refresh_token''),
                               (''refresh_token'', Quoted rt),
                               (''client_id'', Plain (client_id w)),
                               (''client_secret'', Plain cs)])
                      a (map int [1..<Suc k])
                  @ [Sent ''POST'' ''https://id.twitch.tv/oauth2/token'' a
                       (Params [(''grant_type'', Plain ''refresh_token''),
                                (''refresh_token'', Quoted rt),
                                (''client_id'', Plain (client_id w)),
                                (''client_secret'', Plain cs)]),
                     Dispatched ''refresh_token'' [access_token]]\<rparr>))
   \<and> (refresh_token w = Some rt \<and> rt \<noteq> [] \<and> client_secret w = Some cs \<and> cs \<noteq> []
       \<and> \<not> locked w \<and> session w = Some a
       \<and> priv_generate_token n w = Some (res, w') \<longrightarrow>
      (\<exists>rest. log w' = log w
         @ Sent ''POST'' ''https://id.twitch.tv/oauth2/token'' a
             (Params [(''grant_type'', Plain ''refresh_token''),
                      (''refresh_token'', Quoted rt),
                      (''client_id'', Plain (client_id w)),
                      (''client_secret'', Plain cs)])
         # rest))"
proof (intro conjI impI)
  assume "\<not> truthy (refresh_token w) \<or> \<not> truthy (client_secret w) \<or> locked w"
  then show "priv_generate_token n w = Some (Inr None, w)"
    by (auto simp: priv_generate_token.simps)
next
  let ?r = "\<lparr>http_method = ''POST'', url = ''https://id.twitch.tv/oauth2/token''\<rparr>"
  let ?kw = "Params [(''grant_type'', Plain ''refresh_token''),
                     (''refresh_token'', Quoted rt),
                     (''client_id'', Plain (client_id w)),
                     (''client_secret'', Plain cs)]"
  assume h: "refresh_token w = Some rt \<and> rt \<noteq> [] \<and> client_secret w = Some cs \<and> cs \<noteq> []
       \<and> \<not> locked w
       \<and> request n ?r ?kw (w\<lparr>locked := True\<rparr>) = Some (Inr refresh, w1)
       \<and> py_getitem refresh ''access_token'' = Inr access_token"
  then have "session w1 \<noteq> None" by (auto dest: request_Inr_session)
  with h show "priv_generate_token n w =
        Some (Inr (Some refresh),
              w1\<lparr>session := Some access_token,
                 log := log w1 @ [Dispatched ''refresh_token'' [access_token]],
                 locked := False\<rparr>)"
    by (auto simp: priv_generate_token.simps emit_def token_route_def route_url_def
        refresh_params_def)
next
  let ?r = "\<lparr>http_method = ''POST'', url = ''https://id.twitch.tv/oauth2/token''\<rparr>"
  let ?kw = "Params [(''grant_type'', Plain ''refresh_token''),
                     (''refresh_token'', Quoted rt),
                     (''client_id'', Plain (client_id w)),
                     (''client_secret'', Plain cs)]"
  assume h: "refresh_token w = Some rt \<and> rt \<noteq> [] \<and> client_secret w = Some cs \<and> cs \<noteq> []
       \<and> \<not> locked w
       \<and> session w = Some a \<and> net w = replicate k OSErr @ Resp status refresh # future \<and> k < 3
       \<and> (status = 200 \<or> status = 202)
       \<and> py_getitem refresh ''access_token'' = Inr access_token"
  let ?w0 = "w\<lparr>locked := True\<rparr>"
  from h have "priv_request ?r ?kw ?w0 =
      Some (status_outcome status refresh,
            ?w0\<lparr>net := future,
              log := log ?w0 @ backoff ?r ?kw a (map int [1..<Suc k])
                @ Sent (http_method ?r) (url ?r) a ?kw
                # (if status = 400 then [Printed refresh] else [])\<rparr>)"
    by (intro priv_request_response) simp_all
  moreover from h have "status_outcome status refresh = Inr refresh" "status \<noteq> 400"
    by (auto simp: status_outcome_def)
  ultimately have "request (Suc n) ?r ?kw ?w0 =
      Some (Inr refresh,
            ?w0\<lparr>net := future,
              log := log w @ backoff ?r ?kw a (map int [1..<Suc k])
                @ [Sent ''POST'' ''https://id.twitch.tv/oauth2/token'' a ?kw]\<rparr>)"
    by simp
  with h show "priv_generate_token (Suc n) w =
        Some (Inr (Some refresh),
              w\<lparr>session := Some access_token, net := future,
                log := log w @ backoff ?r ?kw a (map int [1..<Suc k])
                  @ [Sent ''POST'' ''https://id.twitch.tv/oauth2/token'' a ?kw,
                     Dispatched ''refresh_token'' [access_token]]\<rparr>)"
    by (simp add: priv_generate_token.simps emit_def token_route_def route_url_def
        refresh_params_def del: request.simps)
next
  let ?r = "\<lparr>http_method = ''POST'', url = ''https://id.twitch.tv/oauth2/token''\<rparr>"
  let ?kw = "Params [(''grant_type'', Plain ''refresh_token''),
                     (''refresh_token'', Quoted rt),
                     (''client_id'', Plain (client_id w)),
                     (''client_secret'', Plain cs)]"
  assume h: "refresh_token w = Some rt \<and> rt \<noteq> [] \<and> client_secret w = Some cs \<and> cs \<noteq> []
       \<and> \<not> locked w \<and> session w = Some a
       \<and> priv_generate_token n w = Some (res, w')"
  let ?w0 = "w\<lparr>locked := True\<rparr>"
  from h obtain res1 w1 where r: "request n ?r ?kw ?w0 = Some (res1, w1)"
    and l: "\<exists>ext. log w' = log w1 @ ext"
    by (auto simp: priv_generate_token.simps emit_def token_route_def route_url_def
        refresh_params_def split: option.splits sum.splits)
  from h have "session ?w0 = Some a" by simp
  from request_first_sent[OF r this] l
  show "\<exists>rest. log w' = log w @ Sent ''POST'' ''https://id.twitch.tv/oauth2/token'' a ?kw # rest"
    by auto
qed

theorem priv_generate_token_behaviour_witness:
  "locked (client0\<lparr>locked := True\<rparr>)
   \<and> priv_generate_token (Suc 0) (client0\<lparr>locked := True\<rparr>)
       = Some (Inr None, client0\<lparr>locked := True\<rparr>)
   \<and> refresh_token client0 = Some ''rt'' \<and> client_secret client0 = Some ''secret''
   \<and> client_id client0 = ''id'' \<and> \<not> locked client0 \<and> session client0 = Some (JStr ''tok'')
   \<and> request (Suc 0) \<lparr>http_method = ''POST'', url = ''https://id.twitch.tv/oauth2/token''\<rparr>
        (Params [(''grant_type'', Plain ''refresh_token''),
                  (''refresh_token'', Quoted ''rt''),
                  (''client_id'', Plain ''id''),
                  (''client_secret'', Plain ''secret'')])
        (client0\<lparr>locked := True, net := [Resp 200 token_pair]\<rparr>)
       = Some (Inr token_pair,
           client0\<lparr>locked := True, net := [],
             log := [Sent ''POST'' ''https://id.twitch.tv/oauth2/token'' (JStr ''tok'')
                (Params [(''grant_type'', Plain ''refresh_token''),
                  (''refresh_token'', Quoted ''rt''),
                  (''client_id'', Plain ''id''),
                  (''client_secret'', Plain ''secret'')])]\<rparr>)
   \<and> py_getitem token_pair ''access_token'' = Inr (JStr ''new'')
   \<and> priv_generate_token (Suc 0) (client0\<lparr>net := [Resp 200 token_pair]\<rparr>)
       = Some (Inr (Some token_pair),
           client0\<lparr>session := Some (JStr ''new''), net := [],
             log := [Sent ''POST'' ''https://id.twitch.tv/oauth2/token'' (JStr ''tok'')
                (Params [(''grant_type'', Plain ''refresh_token''),
                  (''refresh_token'', Quoted ''rt''),
                  (''client_id'', Plain ''id''),
                  (''client_secret'', Plain ''secret'')]),
                     Dispatched ''refresh_token'' [JStr ''new'']]\<rparr>)
   \<and> priv_generate_token (Suc 0) (client0\<lparr>net := [Resp 400 JNull]\<rparr>)
       = Some (Inl BadRequest,
           client0\<lparr>net := [],
             log := [Sent ''POST'' ''https://id.twitch.tv/oauth2/token'' (JStr ''tok'')
                (Params [(''grant_type'', Plain ''refresh_token''),
                  (''refresh_token'', Quoted ''rt''),
                  (''client_id'', Plain ''id''),
                  (''client_secret'', Plain ''secret'')]),
                     Printed JNull]\<rparr>)"
  using
    priv_generate_token_behaviour
    [where w = "client0\<lparr>locked := True\<rparr>" and n = "Suc 0" and rt = "''rt''" and cs = "''secret''"
       and refresh = token_pair and ?w1.0 = "client0\<lparr>locked := True, net := [],
             log := [Sent ''POST'' ''https://id.twitch.tv/oauth2/token'' (JStr ''tok'')
                (Params [(''grant_type'', Plain ''refresh_token''),
                  (''refresh_token'', Quoted ''rt''),
                  (''client_id'', Plain ''id''),
                  (''client_secret'', Plain ''secret'')])]\<rparr>"
       and access_token = "JStr ''new''" and a = "JStr ''tok''" and k = 0 and status = 200
       and future = "[]" and res = "Inr None" and w' = "client0\<lparr>locked := True\<rparr>"]
    priv_generate_token_behaviour
    [where w = "client0\<lparr>net := [Resp 200 token_pair]\<rparr>" and n = "Suc 0" and rt = "''rt''" and cs = "''secret''"
       and refresh = token_pair and ?w1.0 = "client0\<lparr>locked := True, net := [],
             log := [Sent ''POST'' ''https://id.twitch.tv/oauth2/token'' (JStr ''tok'')
                (Params [(''grant_type'', Plain ''refresh_token''),
                  (''refresh_token'', Quoted ''rt''),
                  (''client_id'', Plain ''id''),
                  (''client_secret'', Plain ''secret'')])]\<rparr>"
       and access_token = "JStr ''new''" and a = "JStr ''tok''" and k = 0 and status = 200
       and future = "[]" and res = "Inr (Some token_pair)" and w' = "client0\<lparr>session := Some (JStr ''new''), net := [],
             log := [Sent ''POST'' ''https://id.twitch.tv/oauth2/token'' (JStr ''tok'')
                (Params [(''grant_type'', Plain ''refresh_token''),
                  (''refresh_token'', Quoted ''rt''),
                  (''client_id'', Plain ''id''),
                  (''client_secret'', Plain ''secret'')]),
                     Dispatched ''refresh_token'' [JStr ''new'']]\<rparr>"]
    priv_generate_token_behaviour
    [where w = "client0\<lparr>net := [Resp 200 token_pair]\<rparr>" and n = "0" and rt = "''rt''" and cs = "''secret''"
       and refresh = token_pair and ?w1.0 = "client0\<lparr>locked := True, net := [],
             log := [Sent ''POST'' ''https://id.twitch.tv/oauth2/token'' (JStr ''tok'')
                (Params [(''grant_type'', Plain ''refresh_token''),
                  (''refresh_token'', Quoted ''rt''),
                  (''client_id'', Plain ''id''),
                  (''client_secret'', Plain ''secret'')])]\<rparr>"
       and access_token = "JStr ''new''" and a = "JStr ''tok''" and k = 0 and status = 200
       and future = "[]" and res = "Inr (Some token_pair)" and w' = "client0\<lparr>session := Some (JStr ''new''), net := [],
             log := [Sent ''POST'' ''https://id.twitch.tv/oauth2/token'' (JStr ''tok'')
                (Params [(''grant_type'', Plain ''refresh_token''),
                  (''refresh_token'', Quoted ''rt''),
                  (''client_id'', Plain ''id''),
                  (''client_secret'', Plain ''secret'')]),
                     Dispatched ''refresh_token'' [JStr ''new'']]\<rparr>"]
    priv_generate_token_behaviour
    [where w = "client0\<lparr>net := [Resp 400 JNull]\<rparr>" and n = "Suc 0" and rt = "''rt''" and cs = "''secret''"
       and refresh = token_pair and ?w1.0 = "client0\<lparr>locked := True, net := [],
             log := [Sent ''POST'' ''https://id.twitch.tv/oauth2/token'' (JStr ''tok'')
                (Params [(''grant_type'', Plain ''refresh_token''),
                  (''refresh_token'', Quoted ''rt''),
                  (''client_id'', Plain ''id''),
                  (''client_secret'', Plain ''secret'')])]\<rparr>"
       and access_token = "JStr ''new''" and a = "JStr ''tok''" and k = 0 and status = 200
       and future = "[]" and res = "Inl BadRequest" and w' = "client0\<lparr>net := [],
             log := [Sent ''POST'' ''https://id.twitch.tv/oauth2/token'' (JStr ''tok'')
                (Params [(''grant_type'', Plain ''refresh_token''),
                  (''refresh_token'', Quoted ''rt''),
                  (''client_id'', Plain ''id''),
                  (''client_secret'', Plain ''secret'')]),
                     Printed JNull]\<rparr>"]
  by (simp add: concrete_defs)

section \<open>Opening a session with a token that never expires\<close>

text \<open>
  Whatever the validation reports, a session that \<open>open_session\<close> has opened holds the
  refresh token it was given: neither branch on \<open>expires_in\<close> takes it away.
\<close>

lemma open_session_refresh_token:
  assumes "open_session n token rt w = Some (Inr v, w')"
  shows "refresh_token w' = rt"
proof -
  from assms obtain w0 where o: "priv_open token w = Some w0"
    by (auto simp: open_session_def split: option.splits)
  with assms obtain res w1 where
    v: "priv_validate_token n True (w0\<lparr>refresh_token := rt\<rparr>) = Some (res, w1)"
    by (auto simp: open_session_def split: option.splits)
  from priv_validate_token_frame[OF v] have "refresh_token w1 = rt"
    by (simp add: frame_def)
  with assms o v show ?thesis
    by (auto simp: open_session_def emit_def split: sum.splits if_splits)
qed

text \<open>
  Claim C2, at a failing input. \<open>open_session\<close> is called with a refresh token on a client
  with a client secret, and the provider reports \<open>expires_in = 0\<close>. The warning that the
  refresh token has been removed is logged, but the refresh token is still stored, and
  the next \<open>_generate_token\<close> on this client makes the token exchange with the provider.
\<close>

theorem open_session_keeps_refresh_token:
  "open_session (Suc 0) ''tok'' (Some ''rt'')
     (client0\<lparr>refresh_token := None, session := None,
             net := [Resp 200 (validation 0), Resp 200 token_pair]\<rparr>)
     = Some (Inr (validation 0),
             client0\<lparr>net := [Resp 200 token_pair],
                     log := [sent validate_route NoKwargs (JStr ''tok''),
                             Warned removed_warning]\<rparr>)
   \<and> refresh_token
       (client0\<lparr>net := [Resp 200 token_pair],
               log := [sent validate_route NoKwargs (JStr ''tok''), Warned removed_warning]\<rparr>)
     = Some ''rt''
   \<and> priv_generate_token (Suc 0)
       (client0\<lparr>net := [Resp 200 token_pair],
               log := [sent validate_route NoKwargs (JStr ''tok''), Warned removed_warning]\<rparr>)
     = Some (Inr (Some token_pair),
             client0\<lparr>session := Some (JStr ''new''), net := [],
                     log := [sent validate_route NoKwargs (JStr ''tok''),
                             Warned removed_warning,
                             sent token_route (Params (refresh_params client0)) (JStr ''tok''),
                             Dispatched ''refresh_token'' [JStr ''new'']]\<rparr>)"
  by (simp add: concrete_defs open_session_def priv_open_def py_eq_zero_def)

section \<open>Resource endpoints\<close>

lemmas endpoint_defs =
  get_client_def get_channel_def get_stream_def data_first_def channel_route_def
  stream_route_def users_route_def data_of_def

subsection \<open>Subscribing to a batch of events\<close>

lemma request_accepted:
  assumes "session w = Some a" and "net w = rsp # rest" and "accepted rsp"
  shows "\<exists>body. request (Suc n) r kw w =
           Some (Inr body, w\<lparr>net := rest, log := log w @ [sent r kw a]\<rparr>)"
  using assms
  by (cases rsp) (auto simp: priv_request_def emit_def sent_def Let_def)

lemma subscribe_loop_accepted:
  assumes "session w = Some a" and "net w = rs @ rest"
      and "list_all accepted rs" and "length rs = length pre"
  shows "subscribe_loop (Suc n) user_id session_id (pre @ post) w =
           subscribe_loop (Suc n) user_id session_id post
             (w\<lparr>net := rest, log := log w @ map (submitted user_id session_id a) pre\<rparr>)"
  using assms
proof (induction pre arbitrary: w rs)
  case Nil
  then have "w\<lparr>net := rest, log := log w @ []\<rparr> = w" by (cases w) simp
  then show ?case by simp
next
  case (Cons s pre)
  from Cons.prems obtain rsp rs' where rs: "rs = rsp # rs'" by (cases rs) auto
  let ?w1 = "w\<lparr>net := rs' @ rest,
               log := log w @ [sent subscriptions_route (Json (subscription_data user_id session_id s)) a]\<rparr>"
  from Cons.prems rs request_accepted[of w a rsp "rs' @ rest" n subscriptions_route
      "Json (subscription_data user_id session_id s)"]
  obtain body where
    "request (Suc n) subscriptions_route (Json (subscription_data user_id session_id s)) w
       = Some (Inr body, ?w1)"
    by auto
  then have "subscribe_loop (Suc n) user_id session_id ((s # pre) @ post) w
        = subscribe_loop (Suc n) user_id session_id (pre @ post) ?w1"
    by (simp add: subscriptions_route_def del: request.simps)
  also have "\<dots> = subscribe_loop (Suc n) user_id session_id post
        (?w1\<lparr>net := rest, log := log ?w1 @ map (submitted user_id session_id a) pre\<rparr>)"
    using Cons.prems rs by (intro Cons.IH[of ?w1 rs']) simp_all
  also have "?w1\<lparr>net := rest, log := log ?w1 @ map (submitted user_id session_id a) pre\<rparr>
        = w\<lparr>net := rest, log := log w @ map (submitted user_id session_id a) (s # pre)\<rparr>"
    by (simp add: submitted_def)
  finally show ?case .
qed

lemma subscribe_on_script:
  assumes "session w = Some a"
      and "list_all accepted rs" and "length rs = length pre"
  shows "(net w = rs @ Resp 400 body # future \<longrightarrow>
            subscribe (Suc n) user_id session_id (pre @ s # post) w =
              Some (Inl (SubscriptionError (name s) (version s)),
                    w\<lparr>net := future,
                      log := log w @ map (submitted user_id session_id a) (pre @ [s])
                               @ [Printed body]\<rparr>))
       \<and> (net w = rs @ Resp 403 body # future \<longrightarrow>
            subscribe (Suc n) user_id session_id (pre @ s # post) w =
              Some (Inl (Forbidden (Some (missing_authorization s))),
                    w\<lparr>net := future,
                      log := log w @ map (submitted user_id session_id a) (pre @ [s])\<rparr>))
       \<and> (net w = rs @ future \<longrightarrow>
            subscribe (Suc n) user_id session_id pre w =
              Some (Inr (),
                    w\<lparr>net := future,
                      log := log w @ map (submitted user_id session_id a) pre
                               @ [Dispatched ''ready'' []]\<rparr>))"
proof (intro conjI impI)
  assume n: "net w = rs @ Resp 400 body # future"
  let ?w1 = "w\<lparr>net := Resp 400 body # future,
               log := log w @ map (submitted user_id session_id a) pre\<rparr>"
  have "subscribe_loop (Suc n) user_id session_id (pre @ s # post) w
      = subscribe_loop (Suc n) user_id session_id (s # post) ?w1"
    using assms n by (intro subscribe_loop_accepted) simp_all
  moreover have "priv_request subscriptions_route
        (Json (subscription_data user_id session_id s)) ?w1
      = Some (Inl BadRequest,
              ?w1\<lparr>net := future, log := log ?w1 @ [submitted user_id session_id a s, Printed body]\<rparr>)"
    using assms by (simp add: priv_request_def emit_def submitted_def sent_def Let_def)
  ultimately show "subscribe (Suc n) user_id session_id (pre @ s # post) w =
      Some (Inl (SubscriptionError (name s) (version s)),
            w\<lparr>net := future,
              log := log w @ map (submitted user_id session_id a) (pre @ [s]) @ [Printed body]\<rparr>)"
    by (simp add: subscribe_def subscriptions_route_def)
next
  assume n: "net w = rs @ Resp 403 body # future"
  let ?w1 = "w\<lparr>net := Resp 403 body # future,
               log := log w @ map (submitted user_id session_id a) pre\<rparr>"
  have "subscribe_loop (Suc n) user_id session_id (pre @ s # post) w
      = subscribe_loop (Suc n) user_id session_id (s # post) ?w1"
    using assms n by (intro subscribe_loop_accepted) simp_all
  moreover have "priv_request subscriptions_route
        (Json (subscription_data user_id session_id s)) ?w1
      = Some (Inl (Forbidden None),
              ?w1\<lparr>net := future, log := log ?w1 @ [submitted user_id session_id a s]\<rparr>)"
    using assms by (simp add: priv_request_def emit_def submitted_def sent_def Let_def)
  ultimately show "subscribe (Suc n) user_id session_id (pre @ s # post) w =
      Some (Inl (Forbidden (Some (missing_authorization s))),
            w\<lparr>net := future,
              log := log w @ map (submitted user_id session_id a) (pre @ [s])\<rparr>)"
    by (simp add: subscribe_def subscriptions_route_def)
next
  assume n: "net w = rs @ future"
  have "subscribe_loop (Suc n) user_id session_id (pre @ []) w
      = subscribe_loop (Suc n) user_id session_id []
          (w\<lparr>net := future, log := log w @ map (submitted user_id session_id a) pre\<rparr>)"
    using assms n by (intro subscribe_loop_accepted) simp_all
  then show "subscribe (Suc n) user_id session_id pre w =
      Some (Inr (),
            w\<lparr>net := future,
              log := log w @ map (submitted user_id session_id a) pre @ [Dispatched ''ready'' []]\<rparr>)"
    by (simp add: subscribe_def emit_def)
qed

lemma request_attempts_readies:
  "request_attempts is r kw w = Some (res, w') \<Longrightarrow> readies w' = readies w"
proof (induction "is" arbitrary: w)
  case Nil
  then show ?case by simp
next
  case (Cons i "is")
  show ?case
  proof (cases "session w")
    case None
    with Cons.prems show ?thesis by simp
  next
    case (Some a)
    show ?thesis
    proof (cases "net w")
      case Nil
      with Some Cons.prems show ?thesis by simp
    next
      case (Cons o' future)
      show ?thesis
      proof (cases o')
        case OSErr
        let ?w1 = "emit (Sent (http_method r) (url r) a kw) (w\<lparr>net := future\<rparr>)"
        let ?w2 = "if 3 \<ge> i then emit (Slept (5 * i)) ?w1 else ?w1"
        from Cons.prems Some Cons OSErr
        have "request_attempts is r kw ?w2 = Some (res, w')"
          by (simp add: Let_def split: if_splits)
        then have "readies w' = readies ?w2" by (rule Cons.IH)
        moreover have "readies ?w2 = readies w"
          by (simp add: readies_def emit_def)
        ultimately show ?thesis by simp
      next
        case (Resp status body)
        with Cons.prems Some Cons show ?thesis
          by (auto simp: Let_def readies_def emit_def split: if_splits)
      qed
    qed
  qed
qed

lemma priv_request_readies: "priv_request r kw w = Some (res, w') \<Longrightarrow> readies w' = readies w"
  unfolding priv_request_def by (rule request_attempts_readies)

lemma token_calls_readies:
  "(\<forall>r kw w res w'. request n r kw w = Some (res, w') \<longrightarrow> readies w' = readies w) \<and>
   (\<forall>g w res w'. priv_validate_token n g w = Some (res, w') \<longrightarrow> readies w' = readies w) \<and>
   (\<forall>w res w'. priv_generate_token n w = Some (res, w') \<longrightarrow> readies w' = readies w)"
proof (induction n)
  case 0
  have "\<forall>w res w'. priv_generate_token 0 w = Some (res, w') \<longrightarrow> readies w' = readies w"
    by (auto simp: priv_generate_token.simps split: if_splits)
  then show ?case by simp
next
  case (Suc n)
  then have IHr: "\<And>r kw w res w'. request n r kw w = Some (res, w') \<Longrightarrow> readies w' = readies w"
    and IHv: "\<And>g w res w'. priv_validate_token n g w = Some (res, w') \<Longrightarrow> readies w' = readies w"
    and IHg: "\<And>w res w'. priv_generate_token n w = Some (res, w') \<Longrightarrow> readies w' = readies w"
    by blast+
  have req: "readies w' = readies w" if "request (Suc n) r kw w = Some (res, w')" for r kw w res w'
    using that
    by (auto split: option.splits sum.splits if_splits
        dest!: priv_request_readies IHv IHr)
  have val: "readies w' = readies w"
    if "priv_validate_token (Suc n) g w = Some (res, w')" for g w res w'
    using that
    by (auto split: option.splits sum.splits if_splits
        dest!: priv_request_readies IHv IHg)
  have gen: "readies w' = readies w" if "priv_generate_token (Suc n) w = Some (res, w')" for w res w'
  proof (cases "truthy (refresh_token w) \<and> truthy (client_secret w) \<and> \<not> locked w")
    case False
    with that show ?thesis by (auto simp: priv_generate_token.simps split: if_splits)
  next
    case True
    with that obtain res1 w1 where
      r: "request (Suc n) token_route (Params (refresh_params w)) (w\<lparr>locked := True\<rparr>) = Some (res1, w1)"
      by (simp add: priv_generate_token.simps split: option.splits prod.splits del: request.simps)
    from req[OF r] have f: "readies w1 = readies w" by (simp add: readies_def)
    from that True r show ?thesis using f
      by (auto simp: priv_generate_token.simps readies_def emit_def
          split: sum.splits option.splits simp del: request.simps)
  qed
  from req val gen show ?case by blast
qed

lemmas request_readies = token_calls_readies[THEN conjunct1, rule_format]

lemma subscribe_loop_readies:
  "subscribe_loop n user_id session_id subs w = Some (res, w') \<Longrightarrow> readies w' = readies w"
proof (induction subs arbitrary: w)
  case Nil
  then show ?case by simp
next
  case (Cons s subs)
  from Cons.prems obtain res1 w1 where
    r: "request n (route_path ''POST'' ''eventsub/subscriptions'')
          (Json (subscription_data user_id session_id s)) w = Some (res1, w1)"
    by (auto split: option.splits)
  from request_readies[OF r] have r1: "readies w1 = readies w" .
  show ?case
  proof (cases res1)
    case (Inl e)
    with Cons.prems r have "w' = w1" by (auto split: if_splits)
    with r1 show ?thesis by simp
  next
    case (Inr body)
    with Cons.prems r have "subscribe_loop n user_id session_id subs w1 = Some (res, w')"
      by simp
    from Cons.IH[OF this] r1 show ?thesis by simp
  qed
qed

lemma all_accepted_loop:
  "all_accepted n user_id session_id pre w = Some w1 \<Longrightarrow>
   subscribe_loop n user_id session_id (pre @ post) w = subscribe_loop n user_id session_id post w1"
  by (induction pre arbitrary: w)
     (auto simp: subscriptions_route_def split: option.splits sum.splits)

lemma subscribe_loop_Inr:
  "subscribe_loop n user_id session_id subs w = Some (Inr x, w1) \<longleftrightarrow>
   all_accepted n user_id session_id subs w = Some w1"
  by (induction subs arbitrary: w)
     (auto simp: subscriptions_route_def split: option.splits sum.splits if_splits)

lemma subscribe_first_failure:
  assumes "all_accepted n user_id session_id pre w = Some w1"
      and "request n subscriptions_route (Json (subscription_data user_id session_id s)) w1
             = Some (Inl e, w2)"
  shows "subscribe n user_id session_id (pre @ s # post) w =
           Some (Inl (if is_Forbidden e then Forbidden (Some (missing_authorization s))
                      else if e = BadRequest then SubscriptionError (name s) (version s)
                      else e), w2)"
  using assms all_accepted_loop[OF assms(1), of "s # post"]
  by (simp add: subscribe_def subscriptions_route_def)

lemma subscribe_succeeds_iff:
  "(\<exists>x. subscribe n user_id session_id subs w = Some (Inr x, w')) \<longleftrightarrow>
   (\<exists>w1. all_accepted n user_id session_id subs w = Some w1
         \<and> w' = emit (Dispatched ''ready'' []) w1)"
proof
  assume "\<exists>x. subscribe n user_id session_id subs w = Some (Inr x, w')"
  then obtain w1 where l: "subscribe_loop n user_id session_id subs w = Some (Inr (), w1)"
    and w': "w' = emit (Dispatched ''ready'' []) w1"
    by (auto simp: subscribe_def split: option.splits sum.splits)
  from l have "all_accepted n user_id session_id subs w = Some w1"
    by (simp add: subscribe_loop_Inr)
  with w' show "\<exists>w1. all_accepted n user_id session_id subs w = Some w1
         \<and> w' = emit (Dispatched ''ready'' []) w1"
    by blast
next
  assume "\<exists>w1. all_accepted n user_id session_id subs w = Some w1
         \<and> w' = emit (Dispatched ''ready'' []) w1"
  then obtain w1 where a: "all_accepted n user_id session_id subs w = Some w1"
    and w': "w' = emit (Dispatched ''ready'' []) w1"
    by blast
  from a have "subscribe_loop n user_id session_id subs w = Some (Inr (), w1)"
    by (simp add: subscribe_loop_Inr)
  with w' show "\<exists>x. subscribe n user_id session_id subs w = Some (Inr x, w')"
    by (simp add: subscribe_def)
qed

lemma subscribe_failure_no_ready:
  "subscribe n user_id session_id subs w = Some (Inl e, w') \<Longrightarrow> readies w' = readies w"
  by (auto simp: subscribe_def split: option.splits sum.splits dest: subscribe_loop_readies)

lemma subscribe_success_ready:
  "subscribe n user_id session_id subs w = Some (Inr x, w') \<Longrightarrow>
   readies w' = readies w @ [Dispatched ''ready'' []]"
  by (auto simp: subscribe_def readies_def emit_def split: option.splits sum.splits
      dest!: subscribe_loop_readies)

text \<open>
  Claim C1, as amended. \<open>subscribe\<close> submits the subscriptions one after the other, in the
  order of the list. Once the submissions before a subscription have been accepted: if
  that subscription is rejected with 400 (\<open>BadRequest\<close>), the call fails with the
  \<open>SubscriptionError\<close> that carries its event name and version; if it is rejected with
  403 (\<open>Forbidden\<close>), the call fails with a \<open>Forbidden\<close> whose message names it; if its
  request fails with any other error, the call fails with that error. In every case the
  call ends there, in the state the failed request left: the subscriptions after it are
  not submitted, the answers the network held for them are not consumed, and \<open>ready\<close> is
  not dispatched. The call succeeds exactly when every submission of the batch has
  succeeded, and then, and only then, \<open>ready\<close> is dispatched, once, as the last effect.
\<close>

theorem subscribe_stops_at_first_rejection:
  "(session w = Some a \<and> list_all accepted rs \<and> length rs = length pre
      \<and> net w = rs @ Resp 400 body # future \<longrightarrow>
      subscribe (Suc n) user_id session_id (pre @ s # post) w =
        Some (Inl (SubscriptionError (name s) (version s)),
              w\<lparr>net := future,
                log := log w @ map (submitted user_id session_id a) (pre @ [s])
                         @ [Printed body]\<rparr>))
   \<and> (session w = Some a \<and> list_all accepted rs \<and> length rs = length pre
      \<and> net w = rs @ Resp 403 body # future \<longrightarrow>
      subscribe (Suc n) user_id session_id (pre @ s # post) w =
        Some (Inl (Forbidden (Some (missing_authorization s))),
              w\<lparr>net := future,
                log := log w @ map (submitted user_id session_id a) (pre @ [s])\<rparr>))
   \<and> (session w = Some a \<and> list_all accepted rs \<and> length rs = length pre
      \<and> net w = rs @ future \<longrightarrow>
      subscribe (Suc n) user_id session_id pre w =
        Some (Inr (),
              w\<lparr>net := future,
                log := log w @ map (submitted user_id session_id a) pre
                         @ [Dispatched ''ready'' []]\<rparr>))
   \<and> (all_accepted n user_id session_id pre w = Some w1
      \<and> request n subscriptions_route (Json (subscription_data user_id session_id s)) w1
          = Some (Inl e, w2) \<longrightarrow>
      subscribe n user_id session_id (pre @ s # post) w =
        Some (Inl (if is_Forbidden e then Forbidden (Some (missing_authorization s))
                   else if e = BadRequest then SubscriptionError (name s) (version s)
                   else e), w2))
   \<and> ((\<exists>x. subscribe n user_id session_id subs w = Some (Inr x, w')) \<longleftrightarrow>
       (\<exists>w1. all_accepted n user_id session_id subs w = Some w1
             \<and> w' = emit (Dispatched ''ready'' []) w1))
   \<and> (subscribe n user_id session_id subs w = Some (Inl e, w') \<longrightarrow> readies w' = readies w)
   \<and> (subscribe n user_id session_id subs w = Some (Inr x, w') \<longrightarrow>
       readies w' = readies w @ [Dispatched ''ready'' []])"
  using subscribe_on_script[of w a rs pre body future n user_id session_id s post]
    subscribe_first_failure[of n user_id session_id pre w w1 s e w2 post]
    subscribe_succeeds_iff[of n user_id session_id subs w w']
    subscribe_failure_no_ready[of n user_id session_id subs w e w']
    subscribe_success_ready[of n user_id session_id subs w x w']
  by blast

text \<open>
  Three subscriptions, the second rejected with 400: the third is never submitted and
  \<open>ready\<close> is never dispatched.
\<close>

theorem subscribe_counterexample:
  "subscribe (Suc 0) ''u'' ''s'' [follow, cheer, raid]
     (client0\<lparr>net := [Resp 202 JNull, Resp 400 JNull, Resp 202 JNull]\<rparr>)
     = Some (Inl (SubscriptionError ''channel.cheer'' ''1''),
             client0\<lparr>net := [Resp 202 JNull],
                     log := [submitted ''u'' ''s'' (JStr ''tok'') follow,
                             submitted ''u'' ''s'' (JStr ''tok'') cheer,
                             Printed JNull]\<rparr>)
   \<and> submitted ''u'' ''s'' (JStr ''tok'') raid
       \<notin> set [submitted ''u'' ''s'' (JStr ''tok'') follow,
               submitted ''u'' ''s'' (JStr ''tok'') cheer, Printed JNull]
   \<and> Dispatched ''ready'' []
       \<notin> set [submitted ''u'' ''s'' (JStr ''tok'') follow,
               submitted ''u'' ''s'' (JStr ''tok'') cheer, Printed JNull]"
  by (simp add: concrete_defs subscribe_def submitted_def subscriptions_route_def
      subscription_data_def follow_def cheer_def raid_def)

theorem subscribe_stops_at_first_rejection_witness:
  "session (batch0 400) = Some (JStr ''tok'')
   \<and> list_all accepted [Resp 202 JNull] \<and> length [Resp 202 JNull] = length [follow]
   \<and> subscribe (Suc 0) ''u'' ''s'' ([follow] @ cheer # [raid]) (batch0 400)
     = Some (Inl (SubscriptionError ''channel.cheer'' ''1''),
             batch0 400\<lparr>net := [Resp 202 JNull],
             log := [submitted ''u'' ''s'' (JStr ''tok'') follow, submitted ''u'' ''s'' (JStr ''tok'') cheer, Printed JNull]\<rparr>)
   \<and> subscribe (Suc 0) ''u'' ''s'' ([follow] @ cheer # [raid]) (batch0 403)
     = Some (Inl (Forbidden (Some ''Subscription `channel.cheer` is missing proper authorization'')),
             batch0 403\<lparr>net := [Resp 202 JNull],
             log := [submitted ''u'' ''s'' (JStr ''tok'') follow, submitted ''u'' ''s'' (JStr ''tok'') cheer]\<rparr>)
   \<and> subscribe (Suc 0) ''u'' ''s'' [follow] (batch0 400)
     = Some (Inr (),
             batch0 400\<lparr>net := [Resp 400 JNull, Resp 202 JNull],
             log := [submitted ''u'' ''s'' (JStr ''tok'') follow, Dispatched ''ready'' []]\<rparr>)
   \<and> all_accepted (Suc 0) ''u'' ''s'' [follow] (batch0 404)
     = Some (batch0 404\<lparr>net := [Resp 404 JNull, Resp 202 JNull],
             log := [submitted ''u'' ''s'' (JStr ''tok'') follow]\<rparr>)
   \<and> request (Suc 0) subscriptions_route (Json (subscription_data ''u'' ''s'' cheer))
       (batch0 404\<lparr>net := [Resp 404 JNull, Resp 202 JNull],
             log := [submitted ''u'' ''s'' (JStr ''tok'') follow]\<rparr>)
     = Some (Inl NotFound,
             batch0 404\<lparr>net := [Resp 202 JNull],
             log := [submitted ''u'' ''s'' (JStr ''tok'') follow, submitted ''u'' ''s'' (JStr ''tok'') cheer]\<rparr>)
   \<and> subscribe (Suc 0) ''u'' ''s'' ([follow] @ cheer # [raid]) (batch0 404)
     = Some (Inl NotFound,
             batch0 404\<lparr>net := [Resp 202 JNull],
             log := [submitted ''u'' ''s'' (JStr ''tok'') follow, submitted ''u'' ''s'' (JStr ''tok'') cheer]\<rparr>)
   \<and> readies (batch0 400\<lparr>net := [Resp 202 JNull],
             log := [submitted ''u'' ''s'' (JStr ''tok'') follow, submitted ''u'' ''s'' (JStr ''tok'') cheer, Printed JNull]\<rparr>) = readies (batch0 400)
   \<and> readies (batch0 400\<lparr>net := [Resp 400 JNull, Resp 202 JNull],
             log := [submitted ''u'' ''s'' (JStr ''tok'') follow, Dispatched ''ready'' []]\<rparr>) = readies (batch0 400) @ [Dispatched ''ready'' []]
   \<and> submitted ''u'' ''s'' (JStr ''tok'') cheer
     = Sent ''POST'' ''https://api.twitch.tv/helix/eventsub/subscriptions'' (JStr ''tok'')
         (Json (JObj [(''type'', JStr ''channel.cheer''),
                      (''version'', JStr ''1''),
                      (''condition'', JObj [(''user_id'', JStr ''u''),
                                              (''broadcaster_user_id'', JStr ''u''),
                                              (''moderator_user_id'', JStr ''u''),
                                              (''to_broadcaster_user_id'', JStr ''u'')]),
                      (''transport'', JObj [(''method'', JStr ''websocket''),
                                              (''session_id'', JStr ''s'')])]))"
  using
    subscribe_stops_at_first_rejection
    [where w = "batch0 400" and a = "JStr ''tok''" and rs = "[Resp 202 JNull]" and pre = "[follow]"
       and body = "JNull" and future = "[Resp 202 JNull]" and n = "0" and user_id = "''u''"
       and session_id = "''s''" and s = cheer and post = "[raid]" and ?w1.0 = "batch0 404\<lparr>net := [Resp 404 JNull, Resp 202 JNull],
             log := [submitted ''u'' ''s'' (JStr ''tok'') follow]\<rparr>"
       and e = "NotFound" and ?w2.0 = "batch0 404\<lparr>net := [Resp 202 JNull],
             log := [submitted ''u'' ''s'' (JStr ''tok'') follow, submitted ''u'' ''s'' (JStr ''tok'') cheer]\<rparr>" and subs = "[follow]" and w' = "batch0 400\<lparr>net := [Resp 400 JNull, Resp 202 JNull],
             log := [submitted ''u'' ''s'' (JStr ''tok'') follow, Dispatched ''ready'' []]\<rparr>" and x = "()"]
    subscribe_stops_at_first_rejection
    [where w = "batch0 403" and a = "JStr ''tok''" and rs = "[Resp 202 JNull]" and pre = "[follow]"
       and body = "JNull" and future = "[Resp 202 JNull]" and n = "0" and user_id = "''u''"
       and session_id = "''s''" and s = cheer and post = "[raid]" and ?w1.0 = "batch0 404\<lparr>net := [Resp 404 JNull, Resp 202 JNull],
             log := [submitted ''u'' ''s'' (JStr ''tok'') follow]\<rparr>"
       and e = "NotFound" and ?w2.0 = "batch0 404\<lparr>net := [Resp 202 JNull],
             log := [submitted ''u'' ''s'' (JStr ''tok'') follow, submitted ''u'' ''s'' (JStr ''tok'') cheer]\<rparr>" and subs = "[follow]" and w' = "batch0 400\<lparr>net := [Resp 400 JNull, Resp 202 JNull],
             log := [submitted ''u'' ''s'' (JStr ''tok'') follow, Dispatched ''ready'' []]\<rparr>" and x = "()"]
    subscribe_stops_at_first_rejection
    [where w = "batch0 400" and a = "JStr ''tok''" and rs = "[Resp 202 JNull]" and pre = "[follow]"
       and body = "JNull" and future = "[Resp 400 JNull, Resp 202 JNull]" and n = "0" and user_id = "''u''"
       and session_id = "''s''" and s = cheer and post = "[raid]" and ?w1.0 = "batch0 404\<lparr>net := [Resp 404 JNull, Resp 202 JNull],
             log := [submitted ''u'' ''s'' (JStr ''tok'') follow]\<rparr>"
       and e = "NotFound" and ?w2.0 = "batch0 404\<lparr>net := [Resp 202 JNull],
             log := [submitted ''u'' ''s'' (JStr ''tok'') follow, submitted ''u'' ''s'' (JStr ''tok'') cheer]\<rparr>" and subs = "[follow]" and w' = "batch0 400\<lparr>net := [Resp 400 JNull, Resp 202 JNull],
             log := [submitted ''u'' ''s'' (JStr ''tok'') follow, Dispatched ''ready'' []]\<rparr>" and x = "()"]
    subscribe_stops_at_first_rejection
    [where w = "batch0 404" and a = "JStr ''tok''" and rs = "[Resp 202 JNull]" and pre = "[follow]"
       and body = "JNull" and future = "[Resp 202 JNull]" and n = "Suc 0" and user_id = "''u''"
       and session_id = "''s''" and s = cheer and post = "[raid]" and ?w1.0 = "batch0 404\<lparr>net := [Resp 404 JNull, Resp 202 JNull],
             log := [submitted ''u'' ''s'' (JStr ''tok'') follow]\<rparr>"
       and e = "NotFound" and ?w2.0 = "batch0 404\<lparr>net := [Resp 202 JNull],
             log := [submitted ''u'' ''s'' (JStr ''tok'') follow, submitted ''u'' ''s'' (JStr ''tok'') cheer]\<rparr>" and subs = "[follow]" and w' = "batch0 400\<lparr>net := [Resp 400 JNull, Resp 202 JNull],
             log := [submitted ''u'' ''s'' (JStr ''tok'') follow, Dispatched ''ready'' []]\<rparr>" and x = "()"]
    subscribe_stops_at_first_rejection
    [where w = "batch0 400" and a = "JStr ''tok''" and rs = "[Resp 202 JNull]" and pre = "[follow]"
       and body = "JNull" and future = "[Resp 202 JNull]" and n = "Suc 0" and user_id = "''u''"
       and session_id = "''s''" and s = cheer and post = "[raid]" and ?w1.0 = "batch0 400\<lparr>net := [Resp 400 JNull, Resp 202 JNull],
             log := [submitted ''u'' ''s'' (JStr ''tok'') follow]\<rparr>"
       and e = "SubscriptionError ''channel.cheer'' ''1''" and ?w2.0 = "batch0 400\<lparr>net := [Resp 202 JNull],
             log := [submitted ''u'' ''s'' (JStr ''tok'') follow, submitted ''u'' ''s'' (JStr ''tok'') cheer, Printed JNull]\<rparr>" and subs = "[follow, cheer, raid]" and w' = "batch0 400\<lparr>net := [Resp 202 JNull],
             log := [submitted ''u'' ''s'' (JStr ''tok'') follow, submitted ''u'' ''s'' (JStr ''tok'') cheer, Printed JNull]\<rparr>" and x = "()"]
    subscribe_stops_at_first_rejection
    [where w = "batch0 400" and a = "JStr ''tok''" and rs = "[Resp 202 JNull]" and pre = "[]"
       and body = "JNull" and future = "[Resp 202 JNull]" and n = "Suc 0" and user_id = "''u''"
       and session_id = "''s''" and s = cheer and post = "[raid]" and ?w1.0 = "batch0 400\<lparr>net := [Resp 400 JNull, Resp 202 JNull],
             log := [submitted ''u'' ''s'' (JStr ''tok'') follow]\<rparr>"
       and e = "NotFound" and ?w2.0 = "batch0 404\<lparr>net := [Resp 202 JNull],
             log := [submitted ''u'' ''s'' (JStr ''tok'') follow, submitted ''u'' ''s'' (JStr ''tok'') cheer]\<rparr>" and subs = "[follow]" and w' = "batch0 400\<lparr>net := [Resp 400 JNull, Resp 202 JNull],
             log := [submitted ''u'' ''s'' (JStr ''tok'') follow, Dispatched ''ready'' []]\<rparr>" and x = "()"]
  by (simp add: concrete_defs batch0_def subscribe_def submitted_def subscriptions_route_def
      subscription_data_def missing_authorization_def follow_def cheer_def raid_def readies_def)

subsection \<open>The accessors of the first element\<close>

text \<open>
  Claim C9, as amended. On a response that the pipeline accepts and whose \<open>data\<close> list is
  not empty, \<open>get_client\<close> and \<open>get_channel\<close> return the first element of the list. When
  the request fails, they fail with the error of the request. On an accepted response
  whose \<open>data\<close> list is empty they fail with Python's \<open>IndexError\<close>, which is not an error
  of the taxonomy.
\<close>

theorem data_first_accessors:
  "(request n users_route NoKwargs w = Some (Inr body, w1)
      \<and> py_getitem body ''data'' = Inr (JArr (x # xs)) \<longrightarrow>
      get_client n w = Some (Inr x, w1))
   \<and> (request n users_route NoKwargs w = Some (Inl e, w1) \<longrightarrow>
      get_client n w = Some (Inl e, w1))
   \<and> (request n users_route NoKwargs w = Some (Inr body, w1)
      \<and> py_getitem body ''data'' = Inr (JArr []) \<longrightarrow>
      get_client n w = Some (Inl IndexError, w1))
   \<and> (request n (channel_route broadcaster_id) NoKwargs w = Some (Inr body, w1)
      \<and> py_getitem body ''data'' = Inr (JArr (x # xs)) \<longrightarrow>
      get_channel n broadcaster_id w = Some (Inr x, w1))
   \<and> (request n (channel_route broadcaster_id) NoKwargs w = Some (Inl e, w1) \<longrightarrow>
      get_channel n broadcaster_id w = Some (Inl e, w1))
   \<and> (request n (channel_route broadcaster_id) NoKwargs w = Some (Inr body, w1)
      \<and> py_getitem body ''data'' = Inr (JArr []) \<longrightarrow>
      get_channel n broadcaster_id w = Some (Inl IndexError, w1))"
  by (simp add: endpoint_defs)

text \<open>An accepted response with an empty \<open>data\<close> list: both accessors raise \<open>IndexError\<close>.\<close>

theorem data_first_accessors_counterexample:
  "request (Suc 0) users_route NoKwargs (client0\<lparr>net := [Resp 200 (data_of [])]\<rparr>)
     = Some (Inr (data_of []),
             client0\<lparr>net := [], log := [sent users_route NoKwargs (JStr ''tok'')]\<rparr>)
   \<and> py_getitem (data_of []) ''data'' = Inr (JArr [])
   \<and> get_client (Suc 0) (client0\<lparr>net := [Resp 200 (data_of [])]\<rparr>)
     = Some (Inl IndexError,
             client0\<lparr>net := [], log := [sent users_route NoKwargs (JStr ''tok'')]\<rparr>)
   \<and> get_channel (Suc 0) ''42'' (client0\<lparr>net := [Resp 200 (data_of [])]\<rparr>)
     = Some (Inl IndexError,
             client0\<lparr>net := [], log := [sent (channel_route ''42'') NoKwargs (JStr ''tok'')]\<rparr>)
   \<and> \<not> typed_error IndexError"
  by (simp add: concrete_defs endpoint_defs)

theorem data_first_accessors_witness:
  "request (Suc 0) users_route NoKwargs (client0\<lparr>net := [Resp 200 (data_of [JStr ''me''])]\<rparr>)
     = Some (Inr (data_of [JStr ''me'']),
             client0\<lparr>net := [], log := [sent users_route NoKwargs (JStr ''tok'')]\<rparr>)
   \<and> py_getitem (data_of [JStr ''me'']) ''data'' = Inr (JArr [JStr ''me''])
   \<and> get_client (Suc 0) (client0\<lparr>net := [Resp 200 (data_of [JStr ''me''])]\<rparr>)
     = Some (Inr (JStr ''me''),
             client0\<lparr>net := [], log := [sent users_route NoKwargs (JStr ''tok'')]\<rparr>)
   \<and> get_channel (Suc 0) ''42'' (client0\<lparr>net := [Resp 200 (data_of [JStr ''me''])]\<rparr>)
     = Some (Inr (JStr ''me''),
             client0\<lparr>net := [], log := [sent (channel_route ''42'') NoKwargs (JStr ''tok'')]\<rparr>)
   \<and> get_client (Suc 0) (client0\<lparr>net := [Resp 404 JNull]\<rparr>)
     = Some (Inl NotFound,
             client0\<lparr>net := [], log := [sent users_route NoKwargs (JStr ''tok'')]\<rparr>)
   \<and> get_channel (Suc 0) ''42'' (client0\<lparr>net := [Resp 404 JNull]\<rparr>)
     = Some (Inl NotFound,
             client0\<lparr>net := [], log := [sent (channel_route ''42'') NoKwargs (JStr ''tok'')]\<rparr>)
   \<and> get_client (Suc 0) (client0\<lparr>net := [Resp 200 (data_of [])]\<rparr>)
     = Some (Inl IndexError,
             client0\<lparr>net := [], log := [sent users_route NoKwargs (JStr ''tok'')]\<rparr>)"
  using data_first_accessors
    [of "Suc 0" "client0\<lparr>net := [Resp 200 (data_of [JStr ''me''])]\<rparr>" "data_of [JStr ''me'']"
        "client0\<lparr>net := [], log := [sent users_route NoKwargs (JStr ''tok'')]\<rparr>"
        "JStr ''me''" "[]" NotFound "''42''"]
    data_first_accessors
    [of "Suc 0" "client0\<lparr>net := [Resp 404 JNull]\<rparr>" "data_of []"
        "client0\<lparr>net := [], log := [sent users_route NoKwargs (JStr ''tok'')]\<rparr>"
        "JStr ''me''" "[]" NotFound "''42''"]
    data_first_accessors
    [of "Suc 0" "client0\<lparr>net := [Resp 200 (data_of [])]\<rparr>" "data_of []"
        "client0\<lparr>net := [], log := [sent users_route NoKwargs (JStr ''tok'')]\<rparr>"
        "JStr ''me''" "[]" NotFound "''42''"]
  by (simp add: concrete_defs endpoint_defs)

subsection \<open>The stream of a user\<close>

lemma py_getitem_error: "py_getitem v k = Inl e \<Longrightarrow> e = KeyError \<or> e = TypeError"
  by (cases v) (auto split: option.splits)

lemma py_len_error: "py_len v = Inl e \<Longrightarrow> e = TypeError"
  by (cases v) auto

lemma py_first_error: "py_first v = Inl e \<Longrightarrow> e = IndexError \<or> e = KeyError \<or> e = TypeError"
  by (cases v rule: py_first.cases) auto

text \<open>
  Claim C10. \<open>get_stream\<close> returns \<open>None\<close> when the request fails with \<open>NotFound\<close>, and
  never fails with \<open>NotFound\<close> itself; it also returns \<open>None\<close> on an accepted response whose
  \<open>data\<close> list has no element or more than one, and returns the element when there is
  exactly one.
\<close>

theorem get_stream_none:
  "(request n (stream_route user_id) NoKwargs w = Some (Inl NotFound, w1) \<longrightarrow>
      get_stream n user_id w = Some (Inr None, w1))
   \<and> (request n (stream_route user_id) NoKwargs w = Some (Inr body, w1)
      \<and> py_getitem body ''data'' = Inr (JArr xs) \<and> length xs \<noteq> 1 \<longrightarrow>
      get_stream n user_id w = Some (Inr None, w1))
   \<and> (request n (stream_route user_id) NoKwargs w = Some (Inr body, w1)
      \<and> py_getitem body ''data'' = Inr (JArr [x]) \<longrightarrow>
      get_stream n user_id w = Some (Inr (Some x), w1))
   \<and> get_stream n user_id w \<noteq> Some (Inl NotFound, w')"
proof -
  have "get_stream n user_id w \<noteq> Some (Inl NotFound, w')"
    by (auto simp: get_stream_def split: option.splits sum.splits if_splits
        dest: py_getitem_error py_len_error py_first_error)
  then show ?thesis by (simp add: endpoint_defs)
qed

theorem get_stream_none_witness:
  "request (Suc 0) (stream_route ''7'') NoKwargs (client0\<lparr>net := [Resp 404 JNull]\<rparr>)
     = Some (Inl NotFound,
             client0\<lparr>net := [], log := [sent (stream_route ''7'') NoKwargs (JStr ''tok'')]\<rparr>)
   \<and> get_stream (Suc 0) ''7'' (client0\<lparr>net := [Resp 404 JNull]\<rparr>)
     = Some (Inr None,
             client0\<lparr>net := [], log := [sent (stream_route ''7'') NoKwargs (JStr ''tok'')]\<rparr>)
   \<and> py_getitem (data_of []) ''data'' = Inr (JArr []) \<and> length ([] :: json list) \<noteq> 1
   \<and> get_stream (Suc 0) ''7'' (client0\<lparr>net := [Resp 200 (data_of [])]\<rparr>)
     = Some (Inr None,
             client0\<lparr>net := [], log := [sent (stream_route ''7'') NoKwargs (JStr ''tok'')]\<rparr>)
   \<and> length [JStr ''a'', JStr ''b''] \<noteq> 1
   \<and> get_stream (Suc 0) ''7'' (client0\<lparr>net := [Resp 200 (data_of [JStr ''a'', JStr ''b''])]\<rparr>)
     = Some (Inr None,
             client0\<lparr>net := [], log := [sent (stream_route ''7'') NoKwargs (JStr ''tok'')]\<rparr>)
   \<and> get_stream (Suc 0) ''7'' (client0\<lparr>net := [Resp 200 (data_of [JStr ''a''])]\<rparr>)
     = Some (Inr (Some (JStr ''a'')),
             client0\<lparr>net := [], log := [sent (stream_route ''7'') NoKwargs (JStr ''tok'')]\<rparr>)"
  using get_stream_none
    [of "Suc 0" "''7''" "client0\<lparr>net := [Resp 404 JNull]\<rparr>"
        "client0\<lparr>net := [], log := [sent (stream_route ''7'') NoKwargs (JStr ''tok'')]\<rparr>"
        "data_of []" "[]" "JStr ''a''" client0]
    get_stream_none
    [of "Suc 0" "''7''" "client0\<lparr>net := [Resp 200 (data_of [])]\<rparr>"
        "client0\<lparr>net := [], log := [sent (stream_route ''7'') NoKwargs (JStr ''tok'')]\<rparr>"
        "data_of []" "[]" "JStr ''a''" client0]
    get_stream_none
    [of "Suc 0" "''7''" "client0\<lparr>net := [Resp 200 (data_of [JStr ''a'', JStr ''b''])]\<rparr>"
        "client0\<lparr>net := [], log := [sent (stream_route ''7'') NoKwargs (JStr ''tok'')]\<rparr>"
        "data_of [JStr ''a'', JStr ''b'']" "[JStr ''a'', JStr ''b'']" "JStr ''a''" client0]
    get_stream_none
    [of "Suc 0" "''7''" "client0\<lparr>net := [Resp 200 (data_of [JStr ''a''])]\<rparr>"
        "client0\<lparr>net := [], log := [sent (stream_route ''7'') NoKwargs (JStr ''tok'')]\<rparr>"
        "data_of [JStr ''a'']" "[]" "JStr ''a''" client0]
  by (simp add: concrete_defs endpoint_defs)

section \<open>The background refresh loop without credentials\<close>

lemma sleeps_append: "sleeps (xs @ ys) = sleeps xs @ sleeps ys"
  by (induction xs rule: sleeps.induct) simp_all

lemma request_attempts_exchanges:
  "request_attempts is r kw w = Some (res, w') \<Longrightarrow>
   url r \<noteq> ''https://id.twitch.tv/oauth2/token'' \<Longrightarrow> exchanges w' = exchanges w"
proof (induction "is" arbitrary: w)
  case Nil
  then show ?case by simp
next
  case (Cons i "is")
  show ?case
  proof (cases "session w")
    case None
    with Cons.prems show ?thesis by simp
  next
    case (Some a)
    show ?thesis
    proof (cases "net w")
      case Nil
      with Some Cons.prems show ?thesis by simp
    next
      case (Cons o' future)
      show ?thesis
      proof (cases o')
        case OSErr
        let ?w1 = "emit (Sent (http_method r) (url r) a kw) (w\<lparr>net := future\<rparr>)"
        let ?w2 = "if 3 \<ge> i then emit (Slept (5 * i)) ?w1 else ?w1"
        from Cons.prems Some Cons OSErr
        have "request_attempts is r kw ?w2 = Some (res, w')"
          by (simp add: Let_def split: if_splits)
        then have "exchanges w' = exchanges ?w2" using Cons.prems(2) by (rule Cons.IH)
        moreover have "exchanges ?w2 = exchanges w"
          using Cons.prems(2) by (simp add: exchanges_def emit_def)
        ultimately show ?thesis by simp
      next
        case (Resp status body)
        with Cons.prems Some Cons show ?thesis
          by (auto simp: Let_def exchanges_def emit_def split: if_splits)
      qed
    qed
  qed
qed

lemma priv_validate_token_False_exchanges:
  assumes "priv_validate_token n False w = Some (res, w')"
  shows "exchanges w' = exchanges w"
proof (cases n)
  case 0
  with assms show ?thesis by simp
next
  case (Suc m)
  with assms obtain res1 where "priv_request validate_route NoKwargs w = Some (res1, w')"
    by (auto split: option.splits sum.splits if_splits)
  then show ?thesis
    unfolding priv_request_def
    by (rule request_attempts_exchanges) (simp add: validate_route_def route_url_def)
qed

lemma priv_generate_token_not_refreshable:
  "\<not> refreshable w \<Longrightarrow> priv_generate_token n w = Some (Inr None, w)"
  by (auto simp: refreshable_def priv_generate_token.simps)

lemma Refresher_try_quiet:
  assumes nr: "\<not> refreshable w"
      and t: "Refresher_try n start_time current_time e w = Some (res, start, w')"
  shows "quiet w w'"
proof -
  have v: "quiet w0 w1"
    if "priv_validate_token n False w0 = Some (r, w1)" "\<not> refreshable w0" for w0 r w1
    using that priv_validate_token_frame[OF that(1)] priv_validate_token_False_exchanges[OF that(1)]
    by (simp add: quiet_def frame_def refreshable_def)
  have c: "quiet (w0\<lparr>clock := c\<rparr>) w1 \<Longrightarrow> quiet w0 w1" for w0 c w1
    by (simp add: quiet_def exchanges_def)
  show ?thesis
  proof (cases "current_time - start_time \<ge> e - 300")
    case False
    with t show ?thesis
      by (auto simp: Refresher_try_def split: option.splits sum.splits dest!: v[OF _ nr])
  next
    case True
    with t obtain t' later where cl: "clock w = t' # later"
      by (auto simp: Refresher_try_def split: list.splits)
    let ?w0 = "w\<lparr>clock := later\<rparr>"
    have nr0: "\<not> refreshable ?w0" using nr by (simp add: refreshable_def)
    have g: "priv_generate_token n ?w0 = Some (Inr None, ?w0)"
      using nr0 by (rule priv_generate_token_not_refreshable)
    from t True cl g have "quiet ?w0 w'"
      by (auto simp: Refresher_try_def split: option.splits sum.splits dest!: v[OF _ nr0])
    then show ?thesis by (rule c)
  qed
qed

lemma Refresher_loop_quiet:
  "\<not> refreshable w \<Longrightarrow> Refresher_loop rounds n start ex w = Some (r, w') \<Longrightarrow> quiet w w'"
proof (induction rounds arbitrary: w start ex)
  case 0
  then show ?case by (simp add: quiet_def)
next
  case (Suc rounds)
  show ?case
  proof (cases "py_int ex")
    case None
    with Suc.prems show ?thesis by (simp add: quiet_def)
  next
    case (Some e)
    let ?w1 = "emit (Slept (min (e - 300) 3540)) w"
    from Suc.prems Some obtain ct later where cl: "clock ?w1 = ct # later"
      by (auto simp: Let_def split: list.splits)
    let ?w2 = "?w1\<lparr>clock := later\<rparr>"
    have nr2: "\<not> refreshable ?w2" using Suc.prems(1) by (simp add: refreshable_def emit_def)
    have q2: "quiet w ?w2" using nr2 by (simp add: quiet_def exchanges_def emit_def)
    from Suc.prems Some cl obtain res st w3 where
      t: "Refresher_try n start ct e ?w2 = Some (res, st, w3)"
      by (auto simp: Let_def split: option.splits)
    from Refresher_try_quiet[OF nr2 t] have q3: "quiet ?w2 w3" .
    have trans: "quiet a b \<Longrightarrow> quiet b c \<Longrightarrow> quiet a c" for a b c
      by (auto simp: quiet_def)
    show ?thesis
    proof (cases res)
      case (Inr new_ex)
      with Suc.prems Some cl t have "Refresher_loop rounds n st new_ex w3 = Some (r, w')"
        by (simp add: Let_def)
      with q3 have "quiet w3 w'" by (intro Suc.IH) (simp_all add: quiet_def)
      with q2 q3 show ?thesis by (blast intro: trans)
    next
      case (Inl err)
      show ?thesis
      proof (cases "err = BadRequest")
        case False
        with Inl Suc.prems Some cl t have "w' = w3" by (simp add: Let_def)
        with q2 q3 show ?thesis by (blast intro: trans)
      next
        case True
        let ?w4 = "(emit (Warned disabled_warning) w3)\<lparr>refresh_token := None\<rparr>"
        from True Inl Suc.prems Some cl t
        have "Refresher_loop rounds n st ex ?w4 = Some (r, w')"
          by (simp add: Let_def)
        moreover have q4: "quiet w3 ?w4"
          by (simp add: quiet_def refreshable_def exchanges_def emit_def)
        ultimately have "quiet ?w4 w'" by (intro Suc.IH) (simp_all add: quiet_def)
        with q2 q3 q4 show ?thesis by (blast intro: trans)
      qed
    qed
  qed
qed


lemma Refresher_loop_first_sleep:
  assumes nr: "\<not> refreshable w"
      and l: "Refresher_loop (Suc rounds) n start ex w = Some (r, w')"
      and e: "py_int ex = Some e"
  shows "quiet (emit (Slept (min (e - 300) 3540)) w) w'"
proof -
  let ?w1 = "emit (Slept (min (e - 300) 3540)) w"
  from l e obtain ct later where cl: "clock ?w1 = ct # later"
    by (auto simp: Let_def split: list.splits)
  let ?w2 = "?w1\<lparr>clock := later\<rparr>"
  have nr2: "\<not> refreshable ?w2" using nr by (simp add: refreshable_def emit_def)
  have q2: "quiet ?w1 ?w2" using nr2 by (simp add: quiet_def exchanges_def)
  from l e cl obtain res st w3 where
    t: "Refresher_try n start ct e ?w2 = Some (res, st, w3)"
    by (auto simp: Let_def split: option.splits)
  from Refresher_try_quiet[OF nr2 t] have q3: "quiet ?w2 w3" .
  then have nr3: "\<not> refreshable w3" by (simp add: quiet_def)
  have trans: "quiet a b \<Longrightarrow> quiet b c \<Longrightarrow> quiet a c" for a b c
    by (auto simp: quiet_def)
  let ?w4 = "(emit (Warned disabled_warning) w3)\<lparr>refresh_token := None\<rparr>"
  have q4: "quiet w3 ?w4"
    by (simp add: quiet_def refreshable_def exchanges_def emit_def)
  then have nr4: "\<not> refreshable ?w4" by (simp add: quiet_def)
  from l e cl t consider
      (continued) new_ex where "Refresher_loop rounds n st new_ex w3 = Some (r, w')"
    | (disabled) "Refresher_loop rounds n st ex ?w4 = Some (r, w')"
    | (ended) "w' = w3"
    by (cases res) (auto simp: Let_def split: if_splits)
  then have "quiet w3 w'"
  proof cases
    case continued
    with nr3 show ?thesis by (rule Refresher_loop_quiet)
  next
    case disabled
    with nr4 have "quiet ?w4 w'" by (rule Refresher_loop_quiet)
    with q4 show ?thesis by (rule trans)
  next
    case ended
    with nr3 show ?thesis by (simp add: quiet_def)
  qed
  with q2 q3 show ?thesis by (blast intro: trans)
qed

lemma Refresher_quiet_start:
  assumes "\<not> refreshable w"
  shows "(Refresher rounds n expires_in w = Some (r, w') \<longrightarrow> exchanges w' = exchanges w)
       \<and> (Refresher (Suc rounds) n expires_in w = Some (r, w') \<longrightarrow>
            (\<exists>rest. log w' = log w @ Slept 3540 # rest))
       \<and> (session w = Some a \<and> clock w = t0 # t1 # t2 # t3 # t4 # later
            \<and> net w = Resp 200 v1 # Resp 200 v2 # future
            \<and> py_getitem v1 ''expires_in'' = Inr (JNum e)
            \<and> py_getitem v2 ''expires_in'' = Inr e2 \<longrightarrow>
            (\<exists>w''. Refresher 2 (Suc n) expires_in w = Some (None, w'')
                  \<and> sleeps (log w'') = sleeps (log w) @ [3540, min (e - 300) 3540]))"
proof (intro conjI impI)
  assume r: "Refresher rounds n expires_in w = Some (r, w')"
  then obtain t0 later where cl: "clock w = t0 # later"
    by (auto simp: Refresher_def split: list.splits)
  let ?w0 = "w\<lparr>clock := later\<rparr>"
  have nr0: "\<not> refreshable ?w0" using assms by (simp add: refreshable_def)
  from r cl assms have "Refresher_loop rounds n t0 (JNum (3540 + 300)) ?w0 = Some (r, w')"
    by (auto simp: Refresher_def refreshable_def)
  with nr0 have "quiet ?w0 w'" by (rule Refresher_loop_quiet)
  then show "exchanges w' = exchanges w" by (simp add: quiet_def exchanges_def)
next
  assume r: "Refresher (Suc rounds) n expires_in w = Some (r, w')"
  then obtain t0 later where cl: "clock w = t0 # later"
    by (auto simp: Refresher_def split: list.splits)
  let ?w0 = "w\<lparr>clock := later\<rparr>"
  have nr0: "\<not> refreshable ?w0" using assms by (simp add: refreshable_def)
  from r cl assms
  have "Refresher_loop (Suc rounds) n t0 (JNum (3540 + 300)) ?w0 = Some (r, w')"
    by (auto simp: Refresher_def refreshable_def simp del: Refresher_loop.simps)
  with nr0 have "quiet (emit (Slept (min (3540 + 300 - 300) 3540)) ?w0) w'"
    by (rule Refresher_loop_first_sleep) simp
  then show "\<exists>rest. log w' = log w @ Slept 3540 # rest"
    by (auto simp: quiet_def emit_def)
next
  assume h: "session w = Some a \<and> clock w = t0 # t1 # t2 # t3 # t4 # later
            \<and> net w = Resp 200 v1 # Resp 200 v2 # future
            \<and> py_getitem v1 ''expires_in'' = Inr (JNum e)
            \<and> py_getitem v2 ''expires_in'' = Inr e2"
  have g: "priv_generate_token (Suc n) w0 = Some (Inr None, w0)"
    if "refresh_token w0 = refresh_token w" "client_secret w0 = client_secret w" for w0
    using that assms by (intro priv_generate_token_not_refreshable) (simp add: refreshable_def)
  from h assms show "\<exists>w''. Refresher 2 (Suc n) expires_in w = Some (None, w'')
                  \<and> sleeps (log w'') = sleeps (log w) @ [3540, min (e - 300) 3540]"
    by (auto simp: Refresher_def refreshable_def numeral_2_eq_2 Refresher_try_def Let_def
        emit_def g priv_request_def validate_route_def route_url_def sleeps_append)
qed

lemma priv_validate_token_False_answered:
  assumes "session w = Some a" and "net w = Resp status body # rs"
  shows "priv_validate_token (Suc n) False w =
           Some (status_outcome status body,
                 w\<lparr>net := rs,
                   log := log w @ Sent ''GET'' ''https://id.twitch.tv/oauth2/validate'' a NoKwargs
                            # (if status = 400 then [Printed body] else [])\<rparr>)"
proof -
  from assms have "priv_request validate_route NoKwargs w =
      Some (status_outcome status body,
            w\<lparr>net := rs,
              log := log w @ backoff validate_route NoKwargs a (map int [1..<Suc 0])
                @ Sent (http_method validate_route) (url validate_route) a NoKwargs
                # (if status = 400 then [Printed body] else [])\<rparr>)"
    by (intro priv_request_response) simp_all
  then show ?thesis
    by (cases "status_outcome status body")
       (simp_all add: validate_route_def route_url_def)
qed

lemma Refresher_try_answered:
  assumes nr: "\<not> refreshable w" and s: "session w = Some a"
      and n: "net w = Resp status body # rs"
      and t: "Refresher_try (Suc n) start_time current_time e w = Some (res, start, w')"
  shows "net w' = rs \<and> session w' = Some a \<and> \<not> refreshable w'
         \<and> sleeps (log w') = sleeps (log w)
         \<and> res = (case status_outcome status body of
                     Inl err \<Rightarrow> Inl err
                   | Inr vbody \<Rightarrow> py_getitem vbody ''expires_in'')"
proof -
  have v: "(case priv_validate_token (Suc n) False w0 of
              None \<Rightarrow> None
            | Some (Inl e, w2) \<Rightarrow> Some (Inl e, st, w2)
            | Some (Inr vbody, w2) \<Rightarrow>
                (case py_getitem vbody ''expires_in'' of
                   Inl e \<Rightarrow> Some (Inl e, st, w2)
                 | Inr new_expires_in \<Rightarrow> Some (Inr new_expires_in, st, w2))) = Some (res, start, w')
        \<Longrightarrow> ?thesis"
    if "session w0 = Some a" "net w0 = net w" "sleeps (log w0) = sleeps (log w)"
       "refresh_token w0 = refresh_token w" "client_secret w0 = client_secret w"
    for w0 st
    using that nr n priv_validate_token_False_answered[of w0 a status body rs n]
    by (cases "status_outcome status body")
       (auto simp: refreshable_def sleeps_append split: sum.splits simp del: priv_validate_token.simps)
  show ?thesis
  proof (cases "current_time - start_time \<ge> e - 300")
    case False
    with t show ?thesis
      by (intro v[of w start_time]) (simp_all add: s Refresher_try_def del: priv_validate_token.simps)
  next
    case True
    with t obtain t' later where cl: "clock w = t' # later"
      by (auto simp: Refresher_try_def split: list.splits)
    let ?w0 = "w\<lparr>clock := later\<rparr>"
    have nr0: "\<not> refreshable ?w0" using nr by (simp add: refreshable_def)
    have g: "priv_generate_token (Suc n) ?w0 = Some (Inr None, ?w0)"
      using nr0 by (rule priv_generate_token_not_refreshable)
    from t True cl g show ?thesis
      by (intro v[of ?w0 t']) (simp_all add: s Refresher_try_def del: priv_validate_token.simps)
  qed
qed

lemma priv_validate_token_no_answer:
  "session w = Some a \<Longrightarrow> net w = [] \<Longrightarrow> priv_validate_token (Suc n) g w = None"
  by (simp add: priv_request_def)

lemma Refresher_try_no_answer:
  assumes nr: "\<not> refreshable w" and s: "session w = Some a" and n: "net w = []"
  shows "Refresher_try (Suc n) start_time current_time e w = None"
proof (cases "current_time - start_time \<ge> e - 300")
  case False
  with priv_validate_token_no_answer[OF s n, of n False] show ?thesis
    by (simp add: Refresher_try_def del: priv_validate_token.simps)
next
  case True
  show ?thesis
  proof (cases "clock w")
    case Nil
    with True show ?thesis by (simp add: Refresher_try_def)
  next
    case (Cons t' later)
    let ?w0 = "w\<lparr>clock := later\<rparr>"
    have "\<not> refreshable ?w0" using nr by (simp add: refreshable_def)
    then have g: "priv_generate_token (Suc n) ?w0 = Some (Inr None, ?w0)"
      by (rule priv_generate_token_not_refreshable)
    have "priv_validate_token (Suc n) False ?w0 = None"
      using s n by (intro priv_validate_token_no_answer) simp_all
    with True Cons g show ?thesis
      by (simp add: Refresher_try_def del: priv_validate_token.simps)
  qed
qed

lemma Refresher_loop_not_int:
  "py_int ex = None \<Longrightarrow> Refresher_loop rounds n start ex w = Some (r, w') \<Longrightarrow> w' = w"
  by (cases rounds) auto

lemma status_outcome_BadRequest:
  "status_outcome status body = Inl BadRequest \<longleftrightarrow> status = 400"
  by (simp add: status_outcome_def)

lemma status_outcome_Inr:
  "status_outcome status body = Inr v \<longleftrightarrow> (status = 200 \<or> status = 202) \<and> v = body"
  by (auto simp: status_outcome_def)

lemma Refresher_loop_sleeps:
  assumes "\<not> refreshable w" and "session w = Some a" and "list_all answered (net w)"
      and "py_int ex = Some e"
      and "Refresher_loop rounds (Suc n) start ex w = Some (r, w')"
  shows "sleeps (log w') = sleeps (log w) @ loop_sleeps e (net w) rounds"
  using assms
proof (induction rounds arbitrary: w start ex e)
  case 0
  then show ?case by simp
next
  case (Suc rounds)
  let ?w1 = "emit (Slept (min (e - 300) 3540)) w"
  from Suc.prems obtain ct later where cl: "clock ?w1 = ct # later"
    by (auto simp: Let_def split: list.splits)
  let ?w2 = "?w1\<lparr>clock := later\<rparr>"
  from Suc.prems cl obtain res st w3 where
    t: "Refresher_try (Suc n) start ct e ?w2 = Some (res, st, w3)"
    by (auto simp: Let_def split: option.splits)
  have nr2: "\<not> refreshable ?w2" using Suc.prems(1) by (simp add: refreshable_def emit_def)
  have s2: "session ?w2 = Some a" using Suc.prems(2) by (simp add: emit_def)
  have n2: "net ?w2 = net w" by (simp add: emit_def)
  have sl2: "sleeps (log ?w2) = sleeps (log w) @ [min (e - 300) 3540]"
    by (simp add: emit_def sleeps_append)
  obtain status body rs where n: "net w = Resp status body # rs"
  proof (cases "net w")
    case Nil
    with n2 have "net ?w2 = []" by simp
    from Refresher_try_no_answer[OF nr2 s2 this] t have False by simp
    then show ?thesis ..
  next
    case (Cons rsp rs)
    with Suc.prems(3) that show ?thesis by (cases rsp) auto
  qed
  with Suc.prems(3) have ans: "list_all answered rs" by simp
  from Refresher_try_answered[OF nr2 s2 _ t, of status body rs] n n2
  have n3: "net w3 = rs" and s3: "session w3 = Some a" and nr3: "\<not> refreshable w3"
    and sl3: "sleeps (log w3) = sleeps (log w) @ [min (e - 300) 3540]"
    and res: "res = (case status_outcome status body of
                       Inl err \<Rightarrow> Inl err
                     | Inr vbody \<Rightarrow> py_getitem vbody ''expires_in'')"
    using sl2 by simp_all
  show ?case
  proof (cases res)
    case (Inr v)
    with res have ok: "status = 200 \<or> status = 202" and g: "py_getitem body ''expires_in'' = Inr v"
      by (auto simp: status_outcome_def split: if_splits)
    from Inr Suc.prems cl t have l: "Refresher_loop rounds (Suc n) st v w3 = Some (r, w')"
      by (simp add: Let_def)
    show ?thesis
    proof (cases "py_int v")
      case None
      from Refresher_loop_not_int[OF None l] have "w' = w3" .
      with sl3 n ok g None show ?thesis by auto
    next
      case (Some e')
      from Suc.IH[OF nr3 s3 _ Some l] ans n3
      have "sleeps (log w') = sleeps (log w3) @ loop_sleeps e' rs rounds" by simp
      with sl3 n ok g Some show ?thesis by auto
    qed
  next
    case (Inl err)
    show ?thesis
    proof (cases "err = BadRequest")
      case True
      with Inl res have st400: "status = 400"
        by (auto simp: status_outcome_def split: if_splits sum.splits dest: py_getitem_error)
      let ?w4 = "(emit (Warned disabled_warning) w3)\<lparr>refresh_token := None\<rparr>"
      from True Inl Suc.prems cl t
      have l: "Refresher_loop rounds (Suc n) st ex ?w4 = Some (r, w')"
        by (simp add: Let_def)
      have "sleeps (log w') = sleeps (log ?w4) @ loop_sleeps e (net ?w4) rounds"
        using ans n3 s3 Suc.prems(4) l
        by (intro Suc.IH[of ?w4]) (simp_all add: refreshable_def emit_def)
      moreover have "sleeps (log ?w4) = sleeps (log w3)" "net ?w4 = rs"
        using n3 by (simp_all add: emit_def sleeps_append)
      ultimately show ?thesis using sl3 n st400 by simp
    next
      case False
      with Inl Suc.prems cl t have w': "w' = w3" by (simp add: Let_def)
      from False Inl res have "\<not> (status = 200 \<or> status = 202) \<and> status \<noteq> 400
          \<or> (status = 200 \<or> status = 202) \<and> (\<exists>x. py_getitem body ''expires_in'' = Inl x)"
        by (auto simp: status_outcome_def split: if_splits sum.splits)
      with w' sl3 n show ?thesis by auto
    qed
  qed
qed

text \<open>
  Claim C8, as amended. When the refresh token or the client secret is missing at the
  start of \<open>Refresher\<close> (in particular when both are), no token exchange is made, however
  many rounds the loop runs and however it ends, and the first sleep is the fixed 3540
  seconds that come from the default 3540 + 300. The later sleeps are not fixed. In a
  run where the network answers every transport attempt, the sleeps are exactly those
  of \<open>loop_sleeps\<close>: after a validation answered 200 or 202 that reports \<open>expires_in = e\<close>
  the next sleep is \<open>min (e - 300) 3540\<close>; after a validation answered 400, which is
  caught, the next sleep is the same as the one before; any other answer ends the task.
\<close>

theorem Refresher_without_credentials:
  assumes "\<not> refreshable w"
  shows "(Refresher rounds n expires_in w = Some (r, w') \<longrightarrow> exchanges w' = exchanges w)
       \<and> (Refresher (Suc rounds) n expires_in w = Some (r, w') \<longrightarrow>
            (\<exists>rest. log w' = log w @ Slept 3540 # rest))
       \<and> (session w = Some a \<and> clock w = t0 # t1 # t2 # t3 # t4 # later
            \<and> net w = Resp 200 v1 # Resp 200 v2 # future
            \<and> py_getitem v1 ''expires_in'' = Inr (JNum e)
            \<and> py_getitem v2 ''expires_in'' = Inr e2 \<longrightarrow>
            (\<exists>w''. Refresher 2 (Suc n) expires_in w = Some (None, w'')
                  \<and> sleeps (log w'') = sleeps (log w) @ [3540, min (e - 300) 3540]))
       \<and> (session w = Some a \<and> list_all answered (net w)
            \<and> Refresher rounds (Suc n) expires_in w = Some (r, w') \<longrightarrow>
            sleeps (log w') = sleeps (log w) @ loop_sleeps (3540 + 300) (net w) rounds)"
proof -
  have d: "sleeps (log w') = sleeps (log w) @ loop_sleeps (3540 + 300) (net w) rounds"
    if h: "session w = Some a \<and> list_all answered (net w)
            \<and> Refresher rounds (Suc n) expires_in w = Some (r, w')"
  proof -
    from h obtain t0 later where cl: "clock w = t0 # later"
      by (auto simp: Refresher_def split: list.splits)
    let ?w0 = "w\<lparr>clock := later\<rparr>"
    have nr0: "\<not> refreshable ?w0" using assms by (simp add: refreshable_def)
    from h cl assms
    have "Refresher_loop rounds (Suc n) t0 (JNum (3540 + 300)) ?w0 = Some (r, w')"
      by (auto simp: Refresher_def refreshable_def)
    from Refresher_loop_sleeps[OF nr0 _ _ _ this, of a "3540 + 300"] h show ?thesis
      by simp
  qed
  with Refresher_quiet_start[OF assms, of rounds n expires_in r w' a t0 t1 t2 t3 t4
      later v1 v2 future e e2]
  show ?thesis by blast
qed

text \<open>
  Neither credential is present and the provider reports \<open>expires_in = 1000\<close>: the second
  sleep is 700 seconds, not 3540.
\<close>

theorem Refresher_sleep_counterexample:
  "\<not> refreshable
       (bare0\<lparr>clock := [0, 3540, 3540, 4240, 4240],
              net := [Resp 200 (validation 1000), Resp 200 (validation 1000)]\<rparr>)
   \<and> Refresher 2 (Suc 0) 3600
       (bare0\<lparr>clock := [0, 3540, 3540, 4240, 4240],
              net := [Resp 200 (validation 1000), Resp 200 (validation 1000)]\<rparr>)
     = Some (None,
             bare0\<lparr>clock := [], net := [],
                    log := [Slept 3540, sent validate_route NoKwargs (JStr ''tok''),
                            Slept 700, sent validate_route NoKwargs (JStr ''tok'')]\<rparr>)
   \<and> sleeps [Slept 3540, sent validate_route NoKwargs (JStr ''tok''),
              Slept 700, sent validate_route NoKwargs (JStr ''tok'')] = [3540, 700]
   \<and> min (1000 - 300) 3540 = (700 :: int) \<and> (700 :: int) \<noteq> min (3540 + 300 - 300) 3540"
  by (simp add: concrete_defs bare0_def refreshable_def Refresher_def Refresher_try_def
      numeral_2_eq_2)

theorem Refresher_without_credentials_witness:
  "\<not> refreshable
       (bare0\<lparr>clock := [0, 3540, 3540, 4240, 4240],
            net := [Resp 200 (validation 1000), Resp 200 (validation 1000)]\<rparr>)
   \<and> Refresher 2 (Suc 0) 3600
       (bare0\<lparr>clock := [0, 3540, 3540, 4240, 4240],
            net := [Resp 200 (validation 1000), Resp 200 (validation 1000)]\<rparr>)
     = Some (None,
         bare0\<lparr>clock := [], net := [],
            log := [Slept 3540, sent validate_route NoKwargs (JStr ''tok''),
                    Slept 700, sent validate_route NoKwargs (JStr ''tok'')]\<rparr>)
   \<and> exchanges
       (bare0\<lparr>clock := [], net := [],
            log := [Slept 3540, sent validate_route NoKwargs (JStr ''tok''),
                    Slept 700, sent validate_route NoKwargs (JStr ''tok'')]\<rparr>) = []
   \<and> py_getitem (validation 1000) ''expires_in'' = Inr (JNum 1000)
   \<and> sleeps (log
       (bare0\<lparr>clock := [], net := [],
            log := [Slept 3540, sent validate_route NoKwargs (JStr ''tok''),
                    Slept 700, sent validate_route NoKwargs (JStr ''tok'')]\<rparr>))
     = [3540, min (1000 - 300) 3540]
   \<and> loop_sleeps (3540 + 300) [Resp 200 (validation 1000), Resp 200 (validation 1000)] 2
     = [3540, 700]
   \<and> list_all answered [Resp 200 (validation 1000), Resp 400 JNull, Resp 200 (validation 1000)]
   \<and> Refresher 3 (Suc 0) 3600
       (bare0\<lparr>clock := [0, 3540, 3540, 4240, 4240, 4940, 4940],
            net := [Resp 200 (validation 1000), Resp 400 JNull, Resp 200 (validation 1000)]\<rparr>)
     = Some (None,
         bare0\<lparr>clock := [], net := [],
            log := [Slept 3540, sent validate_route NoKwargs (JStr ''tok''),
                    Slept 700, sent validate_route NoKwargs (JStr ''tok''), Printed JNull, Warned disabled_warning,
                    Slept 700, sent validate_route NoKwargs (JStr ''tok'')]\<rparr>)
   \<and> sleeps (log
       (bare0\<lparr>clock := [], net := [],
            log := [Slept 3540, sent validate_route NoKwargs (JStr ''tok''),
                    Slept 700, sent validate_route NoKwargs (JStr ''tok''), Printed JNull, Warned disabled_warning,
                    Slept 700, sent validate_route NoKwargs (JStr ''tok'')]\<rparr>))
     = [3540, 700, 700]
   \<and> loop_sleeps (3540 + 300)
       [Resp 200 (validation 1000), Resp 400 JNull, Resp 200 (validation 1000)] 3
     = [3540, 700, 700]"
  using
    Refresher_without_credentials
    [where w = "bare0\<lparr>clock := [0, 3540, 3540, 4240, 4240],
            net := [Resp 200 (validation 1000), Resp 200 (validation 1000)]\<rparr>" and rounds = "2" and n = "Suc 0" and expires_in = 3600 and r = None
       and w' = "bare0\<lparr>clock := [], net := [],
            log := [Slept 3540, sent validate_route NoKwargs (JStr ''tok''),
                    Slept 700, sent validate_route NoKwargs (JStr ''tok'')]\<rparr>" and a = "JStr ''tok''" and ?t0.0 = 0 and ?t1.0 = 3540 and ?t2.0 = 3540
       and ?t3.0 = 4240 and ?t4.0 = 4240 and later = "[]" and ?v1.0 = "validation 1000"
       and ?v2.0 = "validation 1000" and future = "[]" and e = 1000 and ?e2.0 = "JNum 1000"]
    Refresher_without_credentials
    [where w = "bare0\<lparr>clock := [0, 3540, 3540, 4240, 4240],
            net := [Resp 200 (validation 1000), Resp 200 (validation 1000)]\<rparr>" and rounds = "1" and n = "Suc 0" and expires_in = 3600 and r = None
       and w' = "bare0\<lparr>clock := [], net := [],
            log := [Slept 3540, sent validate_route NoKwargs (JStr ''tok''),
                    Slept 700, sent validate_route NoKwargs (JStr ''tok'')]\<rparr>" and a = "JStr ''tok''" and ?t0.0 = 0 and ?t1.0 = 3540 and ?t2.0 = 3540
       and ?t3.0 = 4240 and ?t4.0 = 4240 and later = "[]" and ?v1.0 = "validation 1000"
       and ?v2.0 = "validation 1000" and future = "[]" and e = 1000 and ?e2.0 = "JNum 1000"]
    Refresher_without_credentials
    [where w = "bare0\<lparr>clock := [0, 3540, 3540, 4240, 4240],
            net := [Resp 200 (validation 1000), Resp 200 (validation 1000)]\<rparr>" and rounds = "2" and n = "0" and expires_in = 3600 and r = None
       and w' = "bare0\<lparr>clock := [], net := [],
            log := [Slept 3540, sent validate_route NoKwargs (JStr ''tok''),
                    Slept 700, sent validate_route NoKwargs (JStr ''tok'')]\<rparr>" and a = "JStr ''tok''" and ?t0.0 = 0 and ?t1.0 = 3540 and ?t2.0 = 3540
       and ?t3.0 = 4240 and ?t4.0 = 4240 and later = "[]" and ?v1.0 = "validation 1000"
       and ?v2.0 = "validation 1000" and future = "[]" and e = 1000 and ?e2.0 = "JNum 1000"]
    Refresher_without_credentials
    [where w = "bare0\<lparr>clock := [0, 3540, 3540, 4240, 4240, 4940, 4940],
            net := [Resp 200 (validation 1000), Resp 400 JNull, Resp 200 (validation 1000)]\<rparr>" and rounds = "3" and n = "0" and expires_in = 3600 and r = None
       and w' = "bare0\<lparr>clock := [], net := [],
            log := [Slept 3540, sent validate_route NoKwargs (JStr ''tok''),
                    Slept 700, sent validate_route NoKwargs (JStr ''tok''), Printed JNull, Warned disabled_warning,
                    Slept 700, sent validate_route NoKwargs (JStr ''tok'')]\<rparr>" and a = "JStr ''tok''" and ?t0.0 = 0 and ?t1.0 = 3540 and ?t2.0 = 3540
       and ?t3.0 = 4240 and ?t4.0 = 4240 and later = "[]" and ?v1.0 = "validation 1000"
       and ?v2.0 = "validation 1000" and future = "[]" and e = 1000 and ?e2.0 = "JNum 1000"]
  by (simp add: concrete_defs bare0_def refreshable_def Refresher_def Refresher_try_def
      numeral_2_eq_2 numeral_3_eq_3 exchanges_def)

end
